theory Spec2Isabelle
  imports Main "HOL-Library.Word"
begin

unbundle bit_operations_syntax

section \<open>The event loop of ae.go\<close>

text \<open>
  A shallow embedding of \<^verbatim>\<open>ae.go\<close>. Go's \<^verbatim>\<open>int64\<close>, and its \<^verbatim>\<open>int\<close> as on amd64 and
  arm64, are 64-bit two's-complement words: \<open>+\<close>, \<open>-\<close> and \<open>*\<close> wrap, and the
  comparisons \<^verbatim>\<open><\<close> and \<^verbatim>\<open><=\<close> are the signed ones (\<open><s\<close>, \<open>\<le>s\<close>).
\<close>

type_synonym int64 = "64 word"
type_synonym int32 = "32 word"
type_synonym uint32 = "32 word"
type_synonym addr = nat
type_synonym errno = nat

text \<open>
  The two kinds are integer types with two named constants each. Only the constants are
  modelled; the code compares with \<^verbatim>\<open>AE_READABLE\<close> and with \<^verbatim>\<open>AE_NORMAL\<close> and takes
  its \<^verbatim>\<open>else\<close> branch for the other one.
\<close>

datatype FeType = AE_READABLE | AE_WRITABLE

datatype TeType = AE_NORMAL | AE_ONCE

text \<open>
  The callbacks \<^verbatim>\<open>aeFileProc\<close> and \<^verbatim>\<open>aeTimeProc\<close> are Go closures that may change the
  loop. A record cannot hold functions over itself, so an event stores a name of its
  callback (type \<open>'fp\<close> or \<open>'tp\<close>) and the environment below says what each name does to
  the state. \<open>'d\<close> is the type of \<^verbatim>\<open>clientData\<close>. The field \<^verbatim>\<open>next\<close> of
  \<^verbatim>\<open>AeFileEvent\<close> is never read or written by the code.
\<close>

record ('fp, 'd) AeFileEvent =
  fe_fd :: int64
  fe_mask :: FeType
  fileProc :: 'fp
  fe_clientData :: 'd

text \<open>
  Time events are heap objects that the loop and the batch handed to the dispatcher both
  point to, and the dispatcher writes \<^verbatim>\<open>when\<close> through such a pointer. They live in a
  store indexed by address; the chain of \<^verbatim>\<open>next\<close> pointers from \<^verbatim>\<open>TimeEventHead\<close> is
  the list of the addresses on it, head first.
\<close>

record ('tp, 'd) AeTimeEvent =
  te_id :: int64
  te_mask :: TeType
  te_when :: int64
  te_duration :: int64
  timeProc :: 'tp
  te_clientData :: 'd

text \<open>
  \<^verbatim>\<open>FileEvents\<close> is a Go map from keys to pointers. A key is absent (\<open>None\<close>), or
  present with a nil pointer (\<open>Some None\<close>, which is what \<^verbatim>\<open>AeDeleteFileEvent\<close> stores),
  or present with an event.
\<close>

record ('fp, 'd) AeEventLoop =
  FileEvents :: "int64 \<Rightarrow> ('fp, 'd) AeFileEvent option option"
  TimeEventHead :: "addr list"
  epollFd :: int64
  timeEventNextId :: int64
  stop :: bool

text \<open>
  The whole state: the loop, the store of time events with its allocator, and the world
  outside the program (\<open>'w\<close>: the clock and the kernel).
\<close>

record ('fp, 'tp, 'd, 'w) state =
  eventLoop :: "('fp, 'd) AeEventLoop"
  heap :: "addr \<Rightarrow> ('tp, 'd) AeTimeEvent"
  nextAddr :: addr
  world :: 'w

datatype epoll_op = EPOLL_CTL_ADD | EPOLL_CTL_DEL | EPOLL_CTL_MOD

record EpollEvent =
  Events :: uint32
  Fd :: int32

definition EPOLLIN :: uint32 where
  "EPOLLIN = 1"

definition EPOLLOUT :: uint32 where
  "EPOLLOUT = 4"

text \<open>
  What the program calls and does not define: the clock, the two epoll calls
  (\<open>None\<close> is a nil error) and the callbacks. \<^verbatim>\<open>EpollWait\<close> returns the \<open>n\<close> events it
  wrote to the front of the buffer of 128, as a list, or an error. Each call takes the
  world and returns the world it leaves. What \<^verbatim>\<open>log.Printf\<close> writes is not kept.
\<close>

record ('fp, 'tp, 'd, 'w) env =
  GetMsTime :: "'w \<Rightarrow> int64 \<times> 'w"
  EpollCtl :: "int64 \<Rightarrow> epoll_op \<Rightarrow> int64 \<Rightarrow> EpollEvent \<Rightarrow> 'w \<Rightarrow> errno option \<times> 'w"
  EpollWait :: "int64 \<Rightarrow> int64 \<Rightarrow> 'w \<Rightarrow> (errno + EpollEvent list) \<times> 'w"
  runFileProc :: "'fp \<Rightarrow> int64 \<Rightarrow> 'd \<Rightarrow> ('fp, 'tp, 'd, 'w) state \<Rightarrow> ('fp, 'tp, 'd, 'w) state"
  runTimeProc :: "'tp \<Rightarrow> int64 \<Rightarrow> 'd \<Rightarrow> ('fp, 'tp, 'd, 'w) state \<Rightarrow> ('fp, 'tp, 'd, 'w) state"

subsection \<open>Keys and flags\<close>

definition getFeKey :: "int64 \<Rightarrow> FeType \<Rightarrow> int64" where
  "getFeKey fd msk = (if msk = AE_READABLE then fd else fd * (- 1))"

definition getEpollEvent :: "FeType \<Rightarrow> uint32" where
  "getEpollEvent msk = (if msk = AE_READABLE then EPOLLIN else EPOLLOUT)"

text \<open>Indexing a Go map: a missing key reads as the nil pointer.\<close>

definition map_index :: "(int64 \<Rightarrow> 'a option option) \<Rightarrow> int64 \<Rightarrow> 'a option" where
  "map_index m k = (case m k of None \<Rightarrow> None | Some p \<Rightarrow> p)"

subsection \<open>File events\<close>

text \<open>The value of \<^verbatim>\<open>op\<close> when \<^verbatim>\<open>AeCreateFileEvent\<close> calls \<^verbatim>\<open>EpollCtl\<close>.\<close>

definition AeCreateFileEvent_op :: "('fp, 'd) AeEventLoop \<Rightarrow> int64 \<Rightarrow> epoll_op" where
  "AeCreateFileEvent_op lp fd =
     (if map_index (FileEvents lp) (getFeKey fd AE_READABLE) \<noteq> None
         \<or> map_index (FileEvents lp) (getFeKey fd AE_WRITABLE) \<noteq> None
      then EPOLL_CTL_MOD else EPOLL_CTL_ADD)"

definition AeCreateFileEvent ::
  "('fp, 'tp, 'd, 'w) env \<Rightarrow> int64 \<Rightarrow> FeType \<Rightarrow> 'fp \<Rightarrow> 'd \<Rightarrow>
   ('fp, 'tp, 'd, 'w) state \<Rightarrow> ('fp, 'tp, 'd, 'w) state" where
  "AeCreateFileEvent env fd msk proc clientData s =
    (let lp = eventLoop s;
         op = AeCreateFileEvent_op lp fd;
         (err, w) = EpollCtl env (epollFd lp) op fd
                      \<lparr>Events = getEpollEvent msk, Fd = ucast fd\<rparr> (world s)
     in if err \<noteq> None then s\<lparr>world := w\<rparr>
        else s\<lparr>world := w,
               eventLoop := lp\<lparr>FileEvents := (FileEvents lp)
                 (getFeKey fd msk :=
                    Some (Some \<lparr>fe_fd = fd, fe_mask = msk, fileProc = proc,
                                fe_clientData = clientData\<rparr>))\<rparr>\<rparr>)"

definition AeDeleteFileEvent ::
  "('fp, 'tp, 'd, 'w) env \<Rightarrow> int64 \<Rightarrow> FeType \<Rightarrow>
   ('fp, 'tp, 'd, 'w) state \<Rightarrow> ('fp, 'tp, 'd, 'w) state" where
  "AeDeleteFileEvent env fd msk s =
    (let lp = eventLoop s;
         lp' = lp\<lparr>FileEvents := (FileEvents lp)(getFeKey fd msk := Some None)\<rparr>;
         (err, w) = EpollCtl env (epollFd lp') EPOLL_CTL_DEL fd
                      \<lparr>Events = getEpollEvent msk, Fd = ucast fd\<rparr> (world s)
     in s\<lparr>world := w, eventLoop := lp'\<rparr>)"

subsection \<open>Time events\<close>

definition AeCreateTimeEvent ::
  "('fp, 'tp, 'd, 'w) env \<Rightarrow> TeType \<Rightarrow> int64 \<Rightarrow> 'tp \<Rightarrow> 'd \<Rightarrow>
   ('fp, 'tp, 'd, 'w) state \<Rightarrow> int64 \<times> ('fp, 'tp, 'd, 'w) state" where
  "AeCreateTimeEvent env msk dur proc clientData s =
    (let lp = eventLoop s;
         ident = timeEventNextId lp;
         (now, w) = GetMsTime env (world s);
         te = \<lparr>te_id = ident, te_mask = msk, te_when = now + dur, te_duration = dur,
               timeProc = proc, te_clientData = clientData\<rparr>;
         a = nextAddr s
     in (ident,
         s\<lparr>world := w, heap := (heap s)(a := te), nextAddr := Suc a,
           eventLoop := lp\<lparr>timeEventNextId := ident + 1,
                           TimeEventHead := a # TimeEventHead lp\<rparr>\<rparr>))"

text \<open>
  The loop of \<^verbatim>\<open>AeDeleteTimeEvent\<close>: unlink the first node of the chain whose id is the
  one given (\<^verbatim>\<open>break\<close> ends the scan there).
\<close>

fun unlink_first :: "(addr \<Rightarrow> bool) \<Rightarrow> addr list \<Rightarrow> addr list" where
  "unlink_first P [] = []"
| "unlink_first P (a # as) = (if P a then as else a # unlink_first P as)"

definition AeDeleteTimeEvent ::
  "int64 \<Rightarrow> ('fp, 'tp, 'd, 'w) state \<Rightarrow> ('fp, 'tp, 'd, 'w) state" where
  "AeDeleteTimeEvent ident s =
    s\<lparr>eventLoop := (eventLoop s)\<lparr>TimeEventHead :=
        unlink_first (\<lambda>a. te_id (heap s a) = ident) (TimeEventHead (eventLoop s))\<rparr>\<rparr>"

subsection \<open>The dispatcher\<close>

text \<open>
  \<^verbatim>\<open>AeProcessEvents\<close> returns nothing. So that theorems can say which callbacks it
  invoked, the model also returns the calls it made, in order; callbacks cannot touch
  that list.
\<close>

datatype ('fp, 'tp, 'd) call =
  TimeProcCall addr 'tp int64 'd
| FileProcCall "('fp, 'd) AeFileEvent"

text \<open>
  One round of the first loop, for the time event at address \<open>te\<close>: the state when its
  callback returns, what the round does from that state, and the whole round.
\<close>

definition afterTimeProc ::
  "('fp, 'tp, 'd, 'w) env \<Rightarrow> addr \<Rightarrow> ('fp, 'tp, 'd, 'w) state \<Rightarrow> ('fp, 'tp, 'd, 'w) state" where
  "afterTimeProc env te s =
     runTimeProc env (timeProc (heap s te)) (te_id (heap s te)) (te_clientData (heap s te)) s"

definition timeEventPost ::
  "('fp, 'tp, 'd, 'w) env \<Rightarrow> addr \<Rightarrow> ('fp, 'tp, 'd, 'w) state \<Rightarrow> ('fp, 'tp, 'd, 'w) state" where
  "timeEventPost env te s1 =
    (if te_mask (heap s1 te) = AE_NORMAL
     then (let (now, w) = GetMsTime env (world s1)
           in s1\<lparr>world := w,
                 heap := (heap s1)
                   (te := (heap s1 te)\<lparr>te_when := now + te_duration (heap s1 te)\<rparr>)\<rparr>)
     else AeDeleteTimeEvent (te_id (heap s1 te)) s1)"

definition timeEventStep ::
  "('fp, 'tp, 'd, 'w) env \<Rightarrow> addr \<Rightarrow> ('fp, 'tp, 'd, 'w) state \<Rightarrow> ('fp, 'tp, 'd, 'w) state" where
  "timeEventStep env te s = timeEventPost env te (afterTimeProc env te s)"

definition timeProcCall ::
  "('fp, 'tp, 'd, 'w) state \<Rightarrow> addr \<Rightarrow> ('fp, 'tp, 'd) call" where
  "timeProcCall s te =
     TimeProcCall te (timeProc (heap s te)) (te_id (heap s te)) (te_clientData (heap s te))"

fun timeEventLoop ::
  "('fp, 'tp, 'd, 'w) env \<Rightarrow> addr list \<Rightarrow> ('fp, 'tp, 'd, 'w) state \<Rightarrow>
   ('fp, 'tp, 'd, 'w) state \<times> ('fp, 'tp, 'd) call list" where
  "timeEventLoop env [] s = (s, [])"
| "timeEventLoop env (te # tes) s =
     (let (s', calls) = timeEventLoop env tes (timeEventStep env te s)
      in (s', timeProcCall s te # calls))"

text \<open>One round of the second loop.\<close>

definition fileEventStep ::
  "('fp, 'tp, 'd, 'w) env \<Rightarrow> ('fp, 'd) AeFileEvent \<Rightarrow>
   ('fp, 'tp, 'd, 'w) state \<Rightarrow> ('fp, 'tp, 'd, 'w) state" where
  "fileEventStep env fe s =
     AeDeleteFileEvent env (fe_fd fe) (fe_mask fe)
       (runFileProc env (fileProc fe) (fe_fd fe) (fe_clientData fe) s)"

fun fileEventLoop ::
  "('fp, 'tp, 'd, 'w) env \<Rightarrow> ('fp, 'd) AeFileEvent list \<Rightarrow> ('fp, 'tp, 'd, 'w) state \<Rightarrow>
   ('fp, 'tp, 'd, 'w) state \<times> ('fp, 'tp, 'd) call list" where
  "fileEventLoop env [] s = (s, [])"
| "fileEventLoop env (fe # fes) s =
     (let (s', calls) = fileEventLoop env fes (fileEventStep env fe s)
      in (s', FileProcCall fe # calls))"

definition AeProcessEvents ::
  "('fp, 'tp, 'd, 'w) env \<Rightarrow> addr list \<Rightarrow> ('fp, 'd) AeFileEvent list \<Rightarrow>
   ('fp, 'tp, 'd, 'w) state \<Rightarrow> ('fp, 'tp, 'd, 'w) state \<times> ('fp, 'tp, 'd) call list" where
  "AeProcessEvents env tes fes s =
    (let (s1, calls1) = timeEventLoop env tes s;
         (s2, calls2) = fileEventLoop env fes s1
     in (s2, calls1 @ calls2))"

subsection \<open>The waiter\<close>

fun nearestTime_loop ::
  "(addr \<Rightarrow> ('tp, 'd) AeTimeEvent) \<Rightarrow> int64 \<Rightarrow> addr list \<Rightarrow> int64" where
  "nearestTime_loop h nearest [] = nearest"
| "nearestTime_loop h nearest (te # tes) =
     nearestTime_loop h (if te_when (h te) <s nearest then te_when (h te) else nearest) tes"

definition nearestTime ::
  "('fp, 'tp, 'd, 'w) env \<Rightarrow> ('fp, 'tp, 'd, 'w) state \<Rightarrow> int64 \<times> ('fp, 'tp, 'd, 'w) state" where
  "nearestTime env s =
    (let (now, w) = GetMsTime env (world s)
     in (nearestTime_loop (heap s) (now + 1000) (TimeEventHead (eventLoop s)),
         s\<lparr>world := w\<rparr>))"

text \<open>The timeout handed to \<^verbatim>\<open>EpollWait\<close>, from the nearest time and a second clock reading.\<close>

definition AeWait_timeout :: "int64 \<Rightarrow> int64 \<Rightarrow> int64" where
  "AeWait_timeout nearest now =
     (let timeout = nearest - now in if timeout \<le>s 0 then 10 else timeout)"

text \<open>The body of the loop over the ready epoll events: what one of them appends.\<close>

definition readyFileEvent ::
  "('fp, 'd) AeEventLoop \<Rightarrow> EpollEvent \<Rightarrow> ('fp, 'd) AeFileEvent list" where
  "readyFileEvent lp ev =
     (if Events ev AND EPOLLIN \<noteq> 0
      then (case map_index (FileEvents lp) (getFeKey (scast (Fd ev)) AE_READABLE) of
              None \<Rightarrow> [] | Some fe \<Rightarrow> [fe])
      else if Events ev AND EPOLLOUT \<noteq> 0
      then (case map_index (FileEvents lp) (getFeKey (scast (Fd ev)) AE_WRITABLE) of
              None \<Rightarrow> [] | Some fe \<Rightarrow> [fe])
      else [])"

fun readyFileEvents ::
  "('fp, 'd) AeEventLoop \<Rightarrow> EpollEvent list \<Rightarrow> ('fp, 'd) AeFileEvent list \<Rightarrow>
   ('fp, 'd) AeFileEvent list" where
  "readyFileEvents lp [] fes = fes"
| "readyFileEvents lp (ev # evs) fes = readyFileEvents lp evs (fes @ readyFileEvent lp ev)"

fun readyTimeEvents ::
  "(addr \<Rightarrow> ('tp, 'd) AeTimeEvent) \<Rightarrow> int64 \<Rightarrow> addr list \<Rightarrow> addr list \<Rightarrow> addr list" where
  "readyTimeEvents h now [] tes = tes"
| "readyTimeEvents h now (te # rest) tes =
     readyTimeEvents h now rest (if te_when (h te) <s now then tes @ [te] else tes)"

text \<open>
  \<^verbatim>\<open>AeWait\<close> returns \<^verbatim>\<open>(tes, fes, err)\<close>; on the error path the two slices are still nil.
\<close>

definition AeWait ::
  "('fp, 'tp, 'd, 'w) env \<Rightarrow> ('fp, 'tp, 'd, 'w) state \<Rightarrow>
   (addr list \<times> ('fp, 'd) AeFileEvent list \<times> errno option) \<times> ('fp, 'tp, 'd, 'w) state" where
  "AeWait env s =
    (let (nearest, s1) = nearestTime env s;
         (now1, w1) = GetMsTime env (world s1);
         timeout = AeWait_timeout nearest now1;
         (r, w2) = EpollWait env (epollFd (eventLoop s1)) timeout w1
     in case r of
          Inl err \<Rightarrow> (([], [], Some err), s1\<lparr>world := w2\<rparr>)
        | Inr evs \<Rightarrow>
            (let fes = readyFileEvents (eventLoop s1) evs [];
                 (now, w3) = GetMsTime env w2;
                 tes = readyTimeEvents (heap s1) now (TimeEventHead (eventLoop s1)) []
             in ((tes, fes, None), s1\<lparr>world := w3\<rparr>)))"

text \<open>
  The call of \<^verbatim>\<open>EpollWait\<close> that \<^verbatim>\<open>AeWait\<close> makes, with its result: the events reported
  or the error, and the world it leaves (lemmas \<open>AeWait_error\<close> and \<open>AeWait_ready\<close>).
\<close>

definition AeWait_poll ::
  "('fp, 'tp, 'd, 'w) env \<Rightarrow> ('fp, 'tp, 'd, 'w) state \<Rightarrow> (errno + EpollEvent list) \<times> 'w" where
  "AeWait_poll env s =
    (let (nearest, s1) = nearestTime env s;
         (now1, w1) = GetMsTime env (world s1)
     in EpollWait env (epollFd (eventLoop s1)) (AeWait_timeout nearest now1) w1)"

subsection \<open>The driver\<close>

text \<open>
  One pass through the body of the loop of \<^verbatim>\<open>AeMain\<close>, on the state and the calls made
  so far. The loop may run forever, so it is a partial function: \<open>None\<close> means that
  \<^verbatim>\<open>AeMain\<close> does not return.
\<close>

definition AeMain_body ::
  "('fp, 'tp, 'd, 'w) env \<Rightarrow> ('fp, 'tp, 'd, 'w) state \<times> ('fp, 'tp, 'd) call list \<Rightarrow>
   ('fp, 'tp, 'd, 'w) state \<times> ('fp, 'tp, 'd) call list" where
  "AeMain_body env sc =
    (let ((tes, fes, err), s1) = AeWait env (fst sc);
         s2 = (if err \<noteq> None then s1\<lparr>eventLoop := (eventLoop s1)\<lparr>stop := True\<rparr>\<rparr> else s1);
         (s3, calls) = AeProcessEvents env tes fes s2
     in (s3, snd sc @ calls))"

partial_function (option) AeMain_loop ::
  "('fp, 'tp, 'd, 'w) env \<Rightarrow> ('fp, 'tp, 'd, 'w) state \<times> ('fp, 'tp, 'd) call list \<Rightarrow>
   (('fp, 'tp, 'd, 'w) state \<times> ('fp, 'tp, 'd) call list) option" where
  "AeMain_loop env sc =
     (if stop (eventLoop (fst sc)) \<noteq> True
      then AeMain_loop env (AeMain_body env sc) else Some sc)"

definition AeMain ::
  "('fp, 'tp, 'd, 'w) env \<Rightarrow> ('fp, 'tp, 'd, 'w) state \<Rightarrow>
   (('fp, 'tp, 'd, 'w) state \<times> ('fp, 'tp, 'd) call list) option" where
  "AeMain env s = AeMain_loop env (s\<lparr>eventLoop := (eventLoop s)\<lparr>stop := False\<rparr>\<rparr>, [])"

subsection \<open>The invariant of the list of time events\<close>

text \<open>
  No node is on the list twice and no two nodes of the list have the same id.
  \<open>timers_fresh\<close> adds what keeps this true when a timer is registered: the nodes of the
  list are below the allocator's next address and their ids, read as unsigned, are below
  the next id.
\<close>

definition timers_unique :: "('fp, 'tp, 'd, 'w) state \<Rightarrow> bool" where
  "timers_unique s =
     (distinct (TimeEventHead (eventLoop s))
      \<and> (\<forall>a \<in> set (TimeEventHead (eventLoop s)). \<forall>b \<in> set (TimeEventHead (eventLoop s)).
            te_id (heap s a) = te_id (heap s b) \<longrightarrow> a = b))"

definition timers_fresh :: "('fp, 'tp, 'd, 'w) state \<Rightarrow> bool" where
  "timers_fresh s =
     (timers_unique s
      \<and> (\<forall>a \<in> set (TimeEventHead (eventLoop s)).
            a < nextAddr s \<and> te_id (heap s a) < timeEventNextId (eventLoop s)))"

subsection \<open>A concrete environment\<close>

text \<open>
  To run the definitions on concrete inputs: a kernel whose clock stands still unless a
  callback moves it, whose interest list behaves as \<^verbatim>\<open>epoll_ctl(2)\<close> documents
  (\<^verbatim>\<open>EPOLL_CTL_ADD\<close> fails with \<^verbatim>\<open>EEXIST\<close> on a registered descriptor and
  \<^verbatim>\<open>EPOLL_CTL_MOD\<close> and \<^verbatim>\<open>EPOLL_CTL_DEL\<close> with \<^verbatim>\<open>ENOENT\<close> on an unregistered one;
  \<^verbatim>\<open>EPOLL_CTL_MOD\<close> replaces the event mask), and whose \<^verbatim>\<open>epoll_wait\<close> returns what
  \<open>pending\<close> holds. None of this is code of ae.go; the theorems about all environments
  do not use it.
\<close>

record kernel =
  clock :: int64
  interest :: "int64 \<Rightarrow> uint32 option"
  pending :: "errno + EpollEvent list"
  noted :: "nat list"

definition ENOENT :: errno where
  "ENOENT = 2"

definition EINTR :: errno where
  "EINTR = 4"

definition EEXIST :: errno where
  "EEXIST = 17"

definition kernel_ctl ::
  "int64 \<Rightarrow> epoll_op \<Rightarrow> int64 \<Rightarrow> EpollEvent \<Rightarrow> kernel \<Rightarrow> errno option \<times> kernel" where
  "kernel_ctl epfd op fd ev k =
    (case op of
       EPOLL_CTL_ADD \<Rightarrow>
         (if interest k fd \<noteq> None then (Some EEXIST, k)
          else (None, k\<lparr>interest := (interest k)(fd := Some (Events ev))\<rparr>))
     | EPOLL_CTL_MOD \<Rightarrow>
         (if interest k fd = None then (Some ENOENT, k)
          else (None, k\<lparr>interest := (interest k)(fd := Some (Events ev))\<rparr>))
     | EPOLL_CTL_DEL \<Rightarrow>
         (if interest k fd = None then (Some ENOENT, k)
          else (None, k\<lparr>interest := (interest k)(fd := None)\<rparr>)))"

text \<open>
  The callbacks of the concrete environment, by name. \<open>Note\<close> leaves a mark outside the
  program: it appends the \<^verbatim>\<open>clientData\<close> it was called with to \<open>noted\<close>.
\<close>

datatype script =
  Nop
| DeleteTime int64
| Advance int64
| Note

definition run_script ::
  "script \<Rightarrow> nat \<Rightarrow> ('fp, 'tp, 'd, kernel) state \<Rightarrow> ('fp, 'tp, 'd, kernel) state" where
  "run_script p d s =
    (case p of
       Nop \<Rightarrow> s
     | DeleteTime ident \<Rightarrow> AeDeleteTimeEvent ident s
     | Advance ms \<Rightarrow> s\<lparr>world := (world s)\<lparr>clock := clock (world s) + ms\<rparr>\<rparr>
     | Note \<Rightarrow> s\<lparr>world := (world s)\<lparr>noted := noted (world s) @ [d]\<rparr>\<rparr>)"

definition kernel_env :: "(script, script, nat, kernel) env" where
  "kernel_env =
    \<lparr>GetMsTime = (\<lambda>k. (clock k, k)),
     EpollCtl = kernel_ctl,
     EpollWait = (\<lambda>epfd timeout k. (pending k, k)),
     runFileProc = (\<lambda>p fd d s. run_script p d s),
     runTimeProc = (\<lambda>p ident d s. run_script p d s)\<rparr>"

text \<open>
  The loop that \<^verbatim>\<open>AeCreateEventLoop\<close> builds around a descriptor \<open>epfd\<close>, with an
  empty store, at time \<open>t\<close>, before a kernel that will report \<open>r\<close>.
\<close>

definition start ::
  "int64 \<Rightarrow> int64 \<Rightarrow> errno + EpollEvent list \<Rightarrow> (script, script, nat, kernel) state" where
  "start epfd t r =
    \<lparr>eventLoop = \<lparr>FileEvents = (\<lambda>k. None), TimeEventHead = [], epollFd = epfd,
                   timeEventNextId = 1, stop = False\<rparr>,
     heap = (\<lambda>a. \<lparr>te_id = 0, te_mask = AE_ONCE, te_when = 0, te_duration = 0,
                    timeProc = Nop, te_clientData = 0\<rparr>),
     nextAddr = 0,
     world = \<lparr>clock = t, interest = (\<lambda>fd. None), pending = r, noted = []\<rparr>\<rparr>"

text \<open>
  Descriptor 5 registered for reading, then for writing, then unregistered for writing:
  the registry still holds the Readable entry, the kernel no longer knows the descriptor.
\<close>

definition stale_interest :: "(script, script, nat, kernel) state" where
  "stale_interest =
     AeDeleteFileEvent kernel_env 5 AE_WRITABLE
       (AeCreateFileEvent kernel_env 5 AE_WRITABLE Nop 8
         (AeCreateFileEvent kernel_env 5 AE_READABLE Nop 7 (start 3 1700000000000 (Inr []))))"

text \<open>A caller that registers time events one after the other.\<close>

fun AeCreateTimeEvents ::
  "('fp, 'tp, 'd, 'w) env \<Rightarrow> (TeType \<times> int64 \<times> 'tp \<times> 'd) list \<Rightarrow>
   ('fp, 'tp, 'd, 'w) state \<Rightarrow> ('fp, 'tp, 'd, 'w) state" where
  "AeCreateTimeEvents env [] s = s"
| "AeCreateTimeEvents env ((msk, dur, proc, clientData) # rs) s =
     AeCreateTimeEvents env rs (snd (AeCreateTimeEvent env msk dur proc clientData s))"

text \<open>
  A repeating timer of 50 ms whose callback takes 7 ms, and a one-shot timer of 20 ms
  registered after it.
\<close>

definition two_timers :: "(script, script, nat, kernel) state" where
  "two_timers =
     AeCreateTimeEvents kernel_env [(AE_NORMAL, 50, Advance 7, 0), (AE_ONCE, 20, Nop, 0)]
       (start 3 1700000000000 (Inr []))"

text \<open>A one-shot timer registered with the largest duration an \<^verbatim>\<open>int64\<close> holds.\<close>

definition far_timer :: "(script, script, nat, kernel) state" where
  "far_timer =
     snd (AeCreateTimeEvent kernel_env AE_ONCE 9223372036854775807 Nop 0
            (start 3 1700000000000 (Inr [])))"

text \<open>
  Three timers registered in a row, of 10, 30 and 20 ms, seen 25 ms later: the first and
  the third are due. Each callback notes its \<^verbatim>\<open>clientData\<close>: 100, 200, 300.
\<close>

definition three_timers :: "(script, script, nat, kernel) state" where
  "three_timers =
     (AeCreateTimeEvents kernel_env
        [(AE_ONCE, 10, Note, 100), (AE_NORMAL, 30, Note, 200), (AE_ONCE, 20, Note, 300)]
        (start 3 1700000000000 (Inr [])))
     \<lparr>world := \<lparr>clock = 1700000000025, interest = (\<lambda>fd. None), pending = Inr [],
                 noted = []\<rparr>\<rparr>"

text \<open>
  Two one-shot timers, both due. The callback of the second one registered deletes the
  first one (whose id is 1); the callback of the first one notes its \<^verbatim>\<open>clientData\<close>, 100.
\<close>

definition cancelling :: "(script, script, nat, kernel) state" where
  "cancelling =
     (AeCreateTimeEvents kernel_env
        [(AE_ONCE, 10, Note, 100), (AE_ONCE, 10, DeleteTime 1, 200)]
        (start 3 1700000000000 (Inr [])))
     \<lparr>world := \<lparr>clock = 1700000000025, interest = (\<lambda>fd. None), pending = Inr [],
                 noted = []\<rparr>\<rparr>"

text \<open>
  Two one-shot timers and Readable registrations on descriptors 5 and 6, every callback
  noting its \<^verbatim>\<open>clientData\<close> (100, 200, 7, 9). The first timer and the registration on
  descriptor 5 are deleted again before the loop runs, 25 ms later, and the kernel reports
  both descriptors readable.
\<close>

definition cancelled :: "(script, script, nat, kernel) state" where
  "cancelled =
     run_script (Advance 25) 0
       (AeDeleteFileEvent kernel_env 5 AE_READABLE
         (AeDeleteTimeEvent 1
           (AeCreateFileEvent kernel_env 6 AE_READABLE Note 9
             (AeCreateFileEvent kernel_env 5 AE_READABLE Note 7
               (AeCreateTimeEvents kernel_env
                  [(AE_ONCE, 10, Note, 100), (AE_ONCE, 10, Note, 200)]
                  (start 3 1700000000000
                     (Inr [\<lparr>Events = EPOLLIN, Fd = 5\<rparr>, \<lparr>Events = EPOLLIN, Fd = 6\<rparr>])))))))"

text \<open>
  A Readable registration on descriptor 5, which the kernel reports readable at every
  wait.
\<close>

definition one_reader :: "(script, script, nat, kernel) state" where
  "one_reader =
     AeCreateFileEvent kernel_env 5 AE_READABLE (Advance 3) 7
       (start 3 1700000000000 (Inr [\<lparr>Events = EPOLLIN, Fd = 5\<rparr>]))"

text \<open>The two timers of \<open>two_timers\<close>, seen 60 ms after they were registered: both are due.\<close>

definition two_timers_due :: "(script, script, nat, kernel) state" where
  "two_timers_due = two_timers\<lparr>world := (world two_timers)\<lparr>clock := 1700000000060\<rparr>\<rparr>"


text \<open>Which event a call of the dispatcher was made for.\<close>

fun call_event :: "('fp, 'tp, 'd) call \<Rightarrow> addr + ('fp, 'd) AeFileEvent" where
  "call_event (TimeProcCall te p ident d) = Inl te"
| "call_event (FileProcCall fe) = Inr fe"

section \<open>Properties\<close>

subsection \<open>Keys\<close>

lemma double_mod_zero:
  "n < (2::nat) ^ 64 \<Longrightarrow> ((2 * n) mod 2 ^ 64 = 0) = (n = 0 \<or> n = 2 ^ 63)"
proof (cases "2 * n < 2 ^ 64")
  case True
  then show ?thesis by simp
next
  case False
  assume n: "n < 2 ^ 64"
  have "(2 * n) mod 2 ^ 64 = 2 * n - 2 ^ 64"
    using False n by (simp add: mod_if)
  then show ?thesis using False n by auto
qed

lemma unat_min_int64: "(unat x = 2 ^ 63) = (x = 2 ^ 63)" for x :: int64
proof -
  have "unat (2 ^ 63 :: int64) = 2 ^ 63" by simp
  then show ?thesis by (metis word_unat_eq_iff)
qed

text \<open>Negation fixes exactly two 64-bit values: zero and the least one.\<close>

lemma neg_fixed_point: "(x * (- 1) = x) = (x = 0 \<or> x = 2 ^ 63)" for x :: int64
proof -
  have a: "(x * (- 1) = x) = (x + x = 0)"
    by (simp add: neg_eq_iff_add_eq_0)
  have b: "(x + x = 0) = (unat (x + x) = 0)"
    by (simp add: unat_eq_0)
  have c: "unat (x + x) = (2 * unat x) mod 2 ^ 64"
    by (simp add: unat_word_ariths)
  have d: "unat x < 2 ^ 64"
    using unsigned_less [of x, where ?'a = nat] by simp
  show ?thesis
    unfolding a b c double_mod_zero [OF d] unat_min_int64 by (simp add: unat_eq_0)
qed

lemma getFeKey_distinct:
  "fd \<noteq> 0 \<Longrightarrow> fd \<noteq> 2 ^ 63 \<Longrightarrow> getFeKey fd AE_READABLE \<noteq> getFeKey fd AE_WRITABLE"
  using neg_fixed_point [of fd] by (auto simp: getFeKey_def)

subsection \<open>The loops of the waiter and of the dispatcher\<close>

lemma readyTimeEvents_filter:
  "readyTimeEvents h now l tes = tes @ filter (\<lambda>te. te_when (h te) <s now) l"
  by (induction l arbitrary: tes) auto

lemma readyFileEvents_concat:
  "readyFileEvents lp evs fes = fes @ concat (map (readyFileEvent lp) evs)"
  by (induction evs arbitrary: fes) auto

lemma timeEventLoop_calls:
  "map call_event (snd (timeEventLoop env tes s)) = map Inl tes"
  by (induction tes arbitrary: s) (auto simp: split_def Let_def timeProcCall_def)

lemma fileEventLoop_calls:
  "snd (fileEventLoop env fes s) = map FileProcCall fes"
  by (induction fes arbitrary: s) (auto simp: split_def Let_def)

lemma AeProcessEvents_calls:
  "map call_event (snd (AeProcessEvents env tes fes s)) = map Inl tes @ map Inr fes"
  by (simp add: AeProcessEvents_def split_def Let_def timeEventLoop_calls fileEventLoop_calls)

lemma nearestTime_frame:
  "eventLoop (snd (nearestTime env s)) = eventLoop s"
  "heap (snd (nearestTime env s)) = heap s"
  by (simp_all add: nearestTime_def split_def Let_def)

lemma AeWait_frame:
  "eventLoop (snd (AeWait env s)) = eventLoop s"
  "heap (snd (AeWait env s)) = heap s"
  by (simp_all add: AeWait_def split_def Let_def nearestTime_frame split: sum.splits)

lemma AeWait_tes_subset:
  "set (fst (fst (AeWait env s))) \<subseteq> set (TimeEventHead (eventLoop s))"
  by (auto simp add: AeWait_def split_def Let_def nearestTime_frame readyTimeEvents_filter
      split: sum.splits)

lemma readyFileEvent_registered:
  assumes "fe \<in> set (readyFileEvent lp ev)"
  shows "\<exists>k. map_index (FileEvents lp) k = Some fe"
proof (cases "Events ev AND EPOLLIN \<noteq> 0")
  case True
  with assms have "map_index (FileEvents lp) (getFeKey (scast (Fd ev)) AE_READABLE) = Some fe"
    by (cases "map_index (FileEvents lp) (getFeKey (scast (Fd ev)) AE_READABLE)")
       (simp_all add: readyFileEvent_def)
  then show ?thesis by blast
next
  case False
  with assms have "map_index (FileEvents lp) (getFeKey (scast (Fd ev)) AE_WRITABLE) = Some fe"
    by (cases "map_index (FileEvents lp) (getFeKey (scast (Fd ev)) AE_WRITABLE)";
        cases "Events ev AND EPOLLOUT \<noteq> 0")
       (simp_all add: readyFileEvent_def)
  then show ?thesis by blast
qed

lemma AeWait_fes_registered:
  "fe \<in> set (fst (snd (fst (AeWait env s)))) \<Longrightarrow>
   \<exists>k. map_index (FileEvents (eventLoop s)) k = Some fe"
  by (auto simp add: AeWait_def split_def Let_def nearestTime_frame readyFileEvents_concat
      split: sum.splits dest: readyFileEvent_registered)

lemma AeMain_body_calls:
  "map call_event (snd (AeMain_body env (s, cs))) =
   map call_event cs @ map Inl (fst (fst (AeWait env s)))
     @ map Inr (fst (snd (fst (AeWait env s))))"
  by (simp add: AeMain_body_def split_def Let_def AeProcessEvents_calls)

lemma fileEventLoop_append:
  "fst (fileEventLoop env (xs @ ys) s) =
   fst (fileEventLoop env ys (fst (fileEventLoop env xs s)))"
  by (induction xs arbitrary: s) (auto simp: split_def Let_def)

lemma fileEventStep_unregisters:
  "map_index (FileEvents (eventLoop (fileEventStep env fe s)))
     (getFeKey (fe_fd fe) (fe_mask fe)) = None"
  by (simp add: fileEventStep_def AeDeleteFileEvent_def Let_def split_def map_index_def)

lemma AeWait_tes_filter:
  "snd (snd (fst (AeWait env s))) = None \<Longrightarrow>
   \<exists>now. fst (fst (AeWait env s)) =
     filter (\<lambda>te. te_when (heap s te) <s now) (TimeEventHead (eventLoop s))"
  by (auto simp add: AeWait_def split_def Let_def nearestTime_frame readyTimeEvents_filter
      split: sum.splits)

lemma AeCreateFileEvent_world:
  "world (AeCreateFileEvent env fd msk proc clientData s) =
     snd (EpollCtl env (epollFd (eventLoop s)) (AeCreateFileEvent_op (eventLoop s) fd) fd
            \<lparr>Events = getEpollEvent msk, Fd = ucast fd\<rparr> (world s))"
  by (simp add: AeCreateFileEvent_def Let_def split_def)

text \<open>
  What does hold of the two directions of a descriptor: they are separate entries when
  the descriptor is neither 0 nor the least \<^verbatim>\<open>int\<close>.
\<close>

lemma file_events_independent:
  assumes "fd \<noteq> 0" "fd \<noteq> 2 ^ 63" "msk \<noteq> msk'"
  shows "map_index (FileEvents (eventLoop (AeCreateFileEvent env fd msk proc clientData s)))
           (getFeKey fd msk') = map_index (FileEvents (eventLoop s)) (getFeKey fd msk')"
    and "map_index (FileEvents (eventLoop (AeDeleteFileEvent env fd msk s)))
           (getFeKey fd msk') = map_index (FileEvents (eventLoop s)) (getFeKey fd msk')"
proof -
  have k: "getFeKey fd msk \<noteq> getFeKey fd msk'"
    using getFeKey_distinct [OF assms(1,2)] assms(3) by (cases msk; cases msk') auto
  show "map_index (FileEvents (eventLoop (AeCreateFileEvent env fd msk proc clientData s)))
           (getFeKey fd msk') = map_index (FileEvents (eventLoop s)) (getFeKey fd msk')"
    using k by (simp add: AeCreateFileEvent_def Let_def split_def map_index_def)
  show "map_index (FileEvents (eventLoop (AeDeleteFileEvent env fd msk s)))
           (getFeKey fd msk') = map_index (FileEvents (eventLoop s)) (getFeKey fd msk')"
    using k by (simp add: AeDeleteFileEvent_def Let_def split_def map_index_def)
qed


text \<open>Nothing is collected for a descriptor and direction whose key holds nothing.\<close>

lemma readyFileEvent_unregistered:
  assumes "map_index (FileEvents lp) (getFeKey fd msk) = None"
    and "scast (Fd ev) = fd"
    and "Events ev AND EPOLLIN \<noteq> 0 \<longrightarrow> msk = AE_READABLE"
    and "Events ev AND EPOLLIN = 0 \<longrightarrow> msk = AE_WRITABLE"
  shows "readyFileEvent lp ev = []"
  using assms by (cases "Events ev AND EPOLLIN = 0") (simp_all add: readyFileEvent_def)

text \<open>
  \<^verbatim>\<open>AeWait\<close> in terms of the result of its \<^verbatim>\<open>EpollWait\<close> call, and the state the
  dispatcher leaves as the rounds of the batch, applied in order: for a time event its
  callback and then \<open>timeEventPost\<close>, for a file event its callback and then
  \<^verbatim>\<open>AeDeleteFileEvent\<close>.
\<close>

lemma AeWait_error:
  "fst (AeWait_poll env s) = Inl err \<Longrightarrow>
   AeWait env s = (([], [], Some err), s\<lparr>world := snd (AeWait_poll env s)\<rparr>)"
  by (simp add: AeWait_def AeWait_poll_def nearestTime_def split_def Let_def)

lemma AeWait_ready:
  "fst (AeWait_poll env s) = Inr evs \<Longrightarrow>
   AeWait env s =
     ((filter (\<lambda>te. te_when (heap s te) <s fst (GetMsTime env (snd (AeWait_poll env s))))
         (TimeEventHead (eventLoop s)),
       concat (map (readyFileEvent (eventLoop s)) evs), None),
      s\<lparr>world := snd (GetMsTime env (snd (AeWait_poll env s)))\<rparr>)"
  by (simp add: AeWait_def AeWait_poll_def nearestTime_def split_def Let_def
        readyTimeEvents_filter readyFileEvents_concat)

lemma timeEventLoop_fold:
  "fst (timeEventLoop env tes s) =
     fold (\<lambda>te x. timeEventPost env te
             (runTimeProc env (timeProc (heap x te)) (te_id (heap x te))
                (te_clientData (heap x te)) x)) tes s"
  by (induction tes arbitrary: s)
     (auto simp: split_def Let_def timeEventStep_def afterTimeProc_def)

lemma fileEventLoop_fold:
  "fst (fileEventLoop env fes s) =
     fold (\<lambda>fe x. AeDeleteFileEvent env (fe_fd fe) (fe_mask fe)
             (runFileProc env (fileProc fe) (fe_fd fe) (fe_clientData fe) x)) fes s"
  by (induction fes arbitrary: s) (auto simp: split_def Let_def fileEventStep_def)

lemma AeProcessEvents_fold:
  "fst (AeProcessEvents env tes fes s) =
     fold (\<lambda>fe x. AeDeleteFileEvent env (fe_fd fe) (fe_mask fe)
             (runFileProc env (fileProc fe) (fe_fd fe) (fe_clientData fe) x)) fes
       (fold (\<lambda>te x. timeEventPost env te
                (runTimeProc env (timeProc (heap x te)) (te_id (heap x te))
                   (te_clientData (heap x te)) x)) tes s)"
  by (simp add: AeProcessEvents_def split_def Let_def timeEventLoop_fold fileEventLoop_fold)

lemma AeMain_body_state:
  "fst (AeMain_body env (s, cs)) =
     fst (AeProcessEvents env (fst (fst (AeWait env s))) (fst (snd (fst (AeWait env s))))
           (if snd (snd (fst (AeWait env s))) \<noteq> None
            then (snd (AeWait env s))\<lparr>eventLoop := (eventLoop (snd (AeWait env s)))\<lparr>stop := True\<rparr>\<rparr>
            else snd (AeWait env s)))"
  by (simp add: AeMain_body_def split_def Let_def)



subsection \<open>The list of time events\<close>

lemma unlink_first_remove1:
  "(\<forall>a \<in> set l. P a \<longrightarrow> a = te) \<Longrightarrow> P te \<Longrightarrow> unlink_first P l = remove1 te l"
  by (induction l) auto

lemma AeCreateTimeEvent_head:
  "TimeEventHead (eventLoop (snd (AeCreateTimeEvent env msk dur proc clientData s))) =
     nextAddr s # TimeEventHead (eventLoop s)"
  "nextAddr (snd (AeCreateTimeEvent env msk dur proc clientData s)) = Suc (nextAddr s)"
  by (simp_all add: AeCreateTimeEvent_def Let_def split_def)

lemma AeCreateTimeEvent_heap_old:
  "a \<noteq> nextAddr s \<Longrightarrow>
   heap (snd (AeCreateTimeEvent env msk dur proc clientData s)) a = heap s a"
  by (simp add: AeCreateTimeEvent_def Let_def split_def)

lemma AeCreateTimeEvent_new:
  "timeProc (heap (snd (AeCreateTimeEvent env msk dur proc clientData s)) (nextAddr s)) = proc"
  "te_id (heap (snd (AeCreateTimeEvent env msk dur proc clientData s)) (nextAddr s)) =
     timeEventNextId (eventLoop s)"
  "timeEventNextId (eventLoop (snd (AeCreateTimeEvent env msk dur proc clientData s))) =
     timeEventNextId (eventLoop s) + 1"
  by (simp_all add: AeCreateTimeEvent_def Let_def split_def)

lemma upt_shift: "[a ..< a + Suc n] = a # [Suc a ..< Suc a + n]"
proof -
  have "[a ..< a + Suc n] = a # [Suc a ..< a + Suc n]"
    by (rule upt_conv_Cons) simp
  then show ?thesis by simp
qed

lemma AeCreateTimeEvents_head:
  "TimeEventHead (eventLoop (AeCreateTimeEvents env rs s)) =
   rev [nextAddr s ..< nextAddr s + length rs] @ TimeEventHead (eventLoop s)"
proof (induction rs arbitrary: s)
  case Nil
  then show ?case by simp
next
  case (Cons r rs)
  obtain msk dur p d where r: "r = (msk, dur, p, d)"
    by (cases r) auto
  let ?s = "snd (AeCreateTimeEvent env msk dur p d s)"
  have "TimeEventHead (eventLoop (AeCreateTimeEvents env (r # rs) s)) =
        rev [Suc (nextAddr s) ..< Suc (nextAddr s) + length rs]
          @ (nextAddr s # TimeEventHead (eventLoop s))"
    using Cons.IH [of ?s] by (simp add: r AeCreateTimeEvent_head)
  also have "\<dots> = rev (nextAddr s # [Suc (nextAddr s) ..< Suc (nextAddr s) + length rs])
                  @ TimeEventHead (eventLoop s)"
    by simp
  also have "\<dots> = rev [nextAddr s ..< nextAddr s + length (r # rs)]
                  @ TimeEventHead (eventLoop s)"
    by (simp only: length_Cons upt_shift)
  finally show ?case .
qed

lemma AeCreateTimeEvents_heap_old:
  "a < nextAddr s \<Longrightarrow> heap (AeCreateTimeEvents env rs s) a = heap s a"
  by (induction rs arbitrary: s) (auto simp: AeCreateTimeEvent_head AeCreateTimeEvent_heap_old)

lemma AeCreateTimeEvents_new:
  "i < length rs \<Longrightarrow>
   timeProc (heap (AeCreateTimeEvents env rs s) (nextAddr s + i)) = fst (snd (snd (rs ! i)))
   \<and> te_id (heap (AeCreateTimeEvents env rs s) (nextAddr s + i)) =
       timeEventNextId (eventLoop s) + of_nat i"
proof (induction rs arbitrary: s i)
  case Nil
  then show ?case by simp
next
  case (Cons r rs)
  obtain msk dur p d where r: "r = (msk, dur, p, d)"
    by (cases r) auto
  let ?s = "snd (AeCreateTimeEvent env msk dur p d s)"
  show ?case
  proof (cases i)
    case 0
    then show ?thesis
      by (simp add: r AeCreateTimeEvents_heap_old AeCreateTimeEvent_head AeCreateTimeEvent_new)
  next
    case (Suc j)
    then have "j < length rs"
      using Cons.prems by simp
    from Cons.IH [OF this, of ?s] show ?thesis
      by (simp add: r Suc AeCreateTimeEvent_head AeCreateTimeEvent_new add.assoc)
  qed
qed

subsection \<open>The invariant of the list of time events\<close>

text \<open>
  The empty list has it, registering a timer keeps it as long as the id counter does not
  wrap, deleting a timer keeps it, and so does what the dispatcher does after a callback.
\<close>

lemma unlink_first_subset: "set (unlink_first P l) \<subseteq> set l"
  by (induction l) auto

lemma unlink_first_distinct: "distinct l \<Longrightarrow> distinct (unlink_first P l)"
proof (induction l)
  case Nil
  then show ?case by simp
next
  case (Cons a l)
  then show ?case using unlink_first_subset [of P l] by auto
qed

lemma timers_unique_delete:
  "timers_unique s \<Longrightarrow> timers_unique (AeDeleteTimeEvent ident s)"
  using unlink_first_subset [of "\<lambda>a. te_id (heap s a) = ident" "TimeEventHead (eventLoop s)"]
  by (auto simp: timers_unique_def AeDeleteTimeEvent_def unlink_first_distinct)

lemma timers_fresh_delete:
  "timers_fresh s \<Longrightarrow> timers_fresh (AeDeleteTimeEvent ident s)"
  using unlink_first_subset [of "\<lambda>a. te_id (heap s a) = ident" "TimeEventHead (eventLoop s)"]
    timers_unique_delete [of s ident]
  by (auto simp: timers_fresh_def AeDeleteTimeEvent_def)

lemma word_less_succ: "x \<noteq> - 1 \<Longrightarrow> x < x + 1" for x :: int64
  using inc_less_eq_self_iff_eq [of x] by (simp add: not_le [symmetric])

lemma timers_fresh_create:
  assumes "timers_fresh s" and "timeEventNextId (eventLoop s) \<noteq> - 1"
  shows "timers_fresh (snd (AeCreateTimeEvent env msk dur proc clientData s))"
proof -
  let ?L = "TimeEventHead (eventLoop s)"
  let ?n = "timeEventNextId (eventLoop s)"
  let ?s = "snd (AeCreateTimeEvent env msk dur proc clientData s)"
  have lt: "?n < ?n + 1"
    using assms(2) by (rule word_less_succ)
  have old: "\<forall>a \<in> set ?L. a < nextAddr s \<and> te_id (heap s a) < ?n"
    using assms(1) by (simp add: timers_fresh_def)
  have u: "distinct ?L"
    "\<forall>a \<in> set ?L. \<forall>b \<in> set ?L. te_id (heap s a) = te_id (heap s b) \<longrightarrow> a = b"
    using assms(1) by (simp_all add: timers_fresh_def timers_unique_def)
  have h: "heap ?s a = heap s a" if "a \<in> set ?L" for a
  proof -
    have "a \<noteq> nextAddr s" using that old by auto
    then show ?thesis by (rule AeCreateTimeEvent_heap_old)
  qed
  have new: "te_id (heap ?s (nextAddr s)) = ?n"
    by (simp add: AeCreateTimeEvent_def Let_def split_def)
  have l: "TimeEventHead (eventLoop ?s) = nextAddr s # ?L"
    "nextAddr ?s = Suc (nextAddr s)" "timeEventNextId (eventLoop ?s) = ?n + 1"
    by (simp_all add: AeCreateTimeEvent_def Let_def split_def)
  have fresh: "nextAddr s \<notin> set ?L"
    using old by auto
  have ids: "te_id (heap s a) \<noteq> ?n" if "a \<in> set ?L" for a
    using that old by auto
  have a: "distinct (TimeEventHead (eventLoop ?s))"
    using u(1) fresh by (simp add: l)
  have idn: "te_id (heap ?s a) = te_id (heap s a)" if "a \<in> set ?L" for a
    using h [OF that] by simp
  have b: "\<forall>a \<in> set (TimeEventHead (eventLoop ?s)). \<forall>b \<in> set (TimeEventHead (eventLoop ?s)).
            te_id (heap ?s a) = te_id (heap ?s b) \<longrightarrow> a = b"
  proof (intro ballI impI)
    fix a b
    assume a: "a \<in> set (TimeEventHead (eventLoop ?s))"
      and b: "b \<in> set (TimeEventHead (eventLoop ?s))"
      and e: "te_id (heap ?s a) = te_id (heap ?s b)"
    consider "a = nextAddr s" "b = nextAddr s"
      | "a = nextAddr s" "b \<in> set ?L"
      | "a \<in> set ?L" "b = nextAddr s"
      | "a \<in> set ?L" "b \<in> set ?L"
      using a b unfolding l by auto
    then show "a = b"
    proof cases
      case 1
      then show ?thesis by simp
    next
      case 2
      then show ?thesis using e new idn [of b] ids [of b] by simp
    next
      case 3
      then show ?thesis using e new idn [of a] ids [of a] by simp
    next
      case 4
      then show ?thesis using e idn [of a] idn [of b] u(2) by simp
    qed
  qed
  have c: "\<forall>a \<in> set (TimeEventHead (eventLoop ?s)).
            a < nextAddr ?s \<and> te_id (heap ?s a) < timeEventNextId (eventLoop ?s)"
    using old lt by (auto simp: l h new less_Suc_eq intro: less_trans)
  show ?thesis
    using a b c by (simp add: timers_fresh_def timers_unique_def)
qed

lemma timers_fresh_start: "timers_fresh (start epfd t r)"
  by (simp add: timers_fresh_def timers_unique_def start_def)

lemma timers_fresh_unique: "timers_fresh s \<Longrightarrow> timers_unique s"
  by (simp add: timers_fresh_def)

lemma timers_fresh_post:
  assumes "timers_fresh s"
  shows "timers_fresh (timeEventPost env te s)"
proof (cases "te_mask (heap s te) = AE_NORMAL")
  case True
  let ?s = "timeEventPost env te s"
  have e: "eventLoop ?s = eventLoop s" "nextAddr ?s = nextAddr s"
    using True by (simp_all add: timeEventPost_def split_def Let_def)
  have i: "te_id (heap ?s a) = te_id (heap s a)" for a
    using True by (simp add: timeEventPost_def split_def Let_def)
  show ?thesis
    using assms unfolding timers_fresh_def timers_unique_def e i .
next
  case False
  then show ?thesis
    using assms by (simp add: timeEventPost_def timers_fresh_delete)
qed

lemma timers_fresh_creates:
  "timers_fresh s \<Longrightarrow>
   unat (timeEventNextId (eventLoop s)) + length rs < 2 ^ 64 \<Longrightarrow>
   timers_fresh (AeCreateTimeEvents env rs s)"
proof (induction rs arbitrary: s)
  case Nil
  then show ?case by simp
next
  case (Cons r rs)
  obtain msk dur p d where r: "r = (msk, dur, p, d)"
    by (cases r) auto
  let ?s = "snd (AeCreateTimeEvent env msk dur p d s)"
  have n: "timeEventNextId (eventLoop s) \<noteq> - 1"
  proof
    assume "timeEventNextId (eventLoop s) = - 1"
    then have "unat (timeEventNextId (eventLoop s)) = 2 ^ 64 - 1"
      by (simp add: unsigned_minus_1_eq_mask mask_eq_exp_minus_1)
    then show False using Cons.prems(2) by simp
  qed
  have f: "timers_fresh ?s"
    using Cons.prems(1) n by (rule timers_fresh_create)
  have "unat (timeEventNextId (eventLoop s) + 1) = unat (timeEventNextId (eventLoop s)) + 1"
  proof -
    have "1 + timeEventNextId (eventLoop s) \<noteq> 0"
      using n by (simp add: add_eq_0_iff)
    then show ?thesis
      using unatSuc [of "timeEventNextId (eventLoop s)"] by (simp add: add.commute)
  qed
  then have "unat (timeEventNextId (eventLoop ?s)) + length rs < 2 ^ 64"
    using Cons.prems(2) by (simp add: AeCreateTimeEvent_new)
  from Cons.IH [OF f this] show ?case
    by (simp add: r)
qed

subsection \<open>The nearest time, in signed arithmetic\<close>

lemma nearestTime_loop_fold:
  "sint (nearestTime_loop h nearest l) =
   fold min (map (\<lambda>te. sint (te_when (h te))) l) (sint nearest)"
  by (induction l arbitrary: nearest) (auto simp: word_sless_alt min_def)

lemma nearestTime_loop_Min:
  "sint (nearestTime_loop h nearest l) =
   Min (insert (sint nearest) ((\<lambda>te. sint (te_when (h te))) ` set l))"
proof -
  have "Min (set (sint nearest # map (\<lambda>te. sint (te_when (h te))) l)) =
        fold min (map (\<lambda>te. sint (te_when (h te))) l) (sint nearest)"
    by (rule Min.set_eq_fold)
  then show ?thesis by (simp add: nearestTime_loop_fold)
qed

lemma nearestTime_loop_le: "nearestTime_loop h nearest l \<le>s nearest"
proof -
  have "Min (insert (sint nearest) ((\<lambda>te. sint (te_when (h te))) ` set l)) \<le> sint nearest"
    by (rule Min_le) auto
  then show ?thesis by (simp add: nearestTime_loop_Min word_sle_eq)
qed

lemma sint_plus_1000:
  "sint now + 1000 < 2 ^ 63 \<Longrightarrow> sint (now + 1000) = sint now + 1000" for now :: int64
proof -
  assume a: "sint now + 1000 < 2 ^ 63"
  have b: "- (2 ^ 63) \<le> sint now"
    using sint_ge [of now] by simp
  have "sint (now + 1000) = signed_take_bit 63 (sint now + sint (1000 :: int64))"
    using sint_word_add [of now 1000] by simp
  also have "\<dots> = signed_take_bit 63 (sint now + 1000)"
    by simp
  also have "\<dots> = sint now + 1000"
    using a b by (intro signed_take_bit_int_eq_self) simp_all
  finally show ?thesis .
qed

lemma sint_diff:
  "- (2 ^ 63) \<le> sint a - sint b \<Longrightarrow> sint a - sint b < 2 ^ 63 \<Longrightarrow>
   sint (a - b) = sint a - sint b" for a :: int64
proof -
  assume a: "- (2 ^ 63) \<le> sint a - sint b" "sint a - sint b < 2 ^ 63"
  have "sint (a - b) = signed_take_bit 63 (sint a - sint b)"
    using sint_word_diff [of a b] by simp
  also have "\<dots> = sint a - sint b"
    using a by (intro signed_take_bit_int_eq_self) simp_all
  finally show ?thesis .
qed

lemma timeout_bound:
  fixes now now' nearest :: int64
  assumes le: "nearest \<le>s now + 1000"
    and nowrap: "sint now + 1000 < 2 ^ 63"
    and mono: "sint now \<le> sint now'"
    and nounder: "- (2 ^ 63) \<le> sint nearest - sint now'"
  shows "AeWait_timeout nearest now' \<le>s 1000"
proof -
  have a: "sint nearest \<le> sint now + 1000"
    using le sint_plus_1000 [OF nowrap] by (simp add: word_sle_eq)
  have b: "sint nearest - sint now' \<le> 1000"
    using a mono by simp
  have c: "sint (nearest - now') = sint nearest - sint now'"
    using b nounder by (intro sint_diff) simp_all
  show ?thesis
    using b c by (simp add: AeWait_timeout_def Let_def word_sle_eq)
qed

subsection \<open>Evaluation in the concrete environment\<close>

lemmas kernel_simps =
  AeDeleteFileEvent_def AeCreateFileEvent_def AeCreateFileEvent_op_def kernel_env_def
  kernel_ctl_def start_def getFeKey_def map_index_def Let_def split_def getEpollEvent_def
  EPOLLIN_def EPOLLOUT_def EEXIST_def ENOENT_def EINTR_def

lemmas time_simps =
  AeCreateTimeEvent_def AeDeleteTimeEvent_def timeEventStep_def timeEventPost_def
  afterTimeProc_def
  run_script_def nearestTime_def AeWait_def AeWait_timeout_def readyFileEvent_def
  AeProcessEvents_def timeProcCall_def fileEventStep_def

lemma stale_interest_ctl_fails:
  "fst (EpollCtl kernel_env (epollFd (eventLoop stale_interest))
         (AeCreateFileEvent_op (eventLoop stale_interest) 5) 5
         \<lparr>Events = getEpollEvent AE_WRITABLE, Fd = ucast (5 :: int64)\<rparr>
         (world stale_interest)) = Some ENOENT"
  by (simp add: stale_interest_def kernel_simps)

lemma kernel_env_sel:
  "GetMsTime kernel_env k = (clock k, k)"
  "EpollWait kernel_env epfd timeout k = (pending k, k)"
  "EpollCtl kernel_env = kernel_ctl"
  "runTimeProc kernel_env p ident d s = run_script p d s"
  "runFileProc kernel_env p fd d s = run_script p d s"
  by (simp_all add: kernel_env_def)

lemma two_timers_eval:
  "TimeEventHead (eventLoop two_timers) = [1, 0]"
  "heap two_timers 0 = \<lparr>te_id = 1, te_mask = AE_NORMAL, te_when = 1700000000050, te_duration = 50, timeProc = Advance 7, te_clientData = 0\<rparr>"
  "heap two_timers (Suc 0) = \<lparr>te_id = 2, te_mask = AE_ONCE, te_when = 1700000000020, te_duration = 20, timeProc = Nop, te_clientData = 0\<rparr>"
  "clock (world two_timers) = 1700000000000"
  by (simp_all add: two_timers_def time_simps kernel_simps)

lemma one_reader_wait:
  "fst (snd (fst (AeWait kernel_env one_reader))) =
     [\<lparr>fe_fd = 5, fe_mask = AE_READABLE, fileProc = Advance 3, fe_clientData = 7\<rparr>]"
  by (simp add: one_reader_def time_simps kernel_simps)

lemma one_reader_two_passes:
  "snd (AeMain_body kernel_env (AeMain_body kernel_env (one_reader, []))) =
     [FileProcCall \<lparr>fe_fd = 5, fe_mask = AE_READABLE, fileProc = Advance 3, fe_clientData = 7\<rparr>]"
  by (simp add: one_reader_def AeMain_body_def time_simps kernel_simps)

lemma cancelled_eval:
  "TimeEventHead (eventLoop cancelled) = [1]"
  "FileEvents (eventLoop cancelled) =
     (\<lambda>k. None)(5 := Some None,
        6 := Some (Some \<lparr>fe_fd = 6, fe_mask = AE_READABLE, fileProc = Note, fe_clientData = 9\<rparr>))"
  by (simp_all add: cancelled_def time_simps kernel_simps fun_upd_twist)

lemma cancelled_pass:
  "noted (world (fst (AeMain_body kernel_env (cancelled, [])))) = [200, 9]"
  by (simp add: cancelled_def AeMain_body_def time_simps kernel_simps)

lemma two_timers_due_eval:
  "TimeEventHead (eventLoop two_timers_due) = [Suc 0, 0]"
  "heap two_timers_due = heap two_timers"
  "clock (world two_timers_due) = 1700000000060"
  "fst (fst (AeWait kernel_env two_timers_due)) = [Suc 0, 0]"
  by (simp_all add: two_timers_due_def two_timers_def time_simps kernel_simps)

lemma two_timers_due_unique: "timers_unique two_timers_due"
proof -
  have "timers_fresh two_timers"
    unfolding two_timers_def
    by (rule timers_fresh_creates [OF timers_fresh_start]) (simp add: start_def)
  then show ?thesis
    by (simp add: timers_fresh_def timers_unique_def two_timers_due_def)
qed

lemma two_timers_due_rounds:
  "fst (AeProcessEvents kernel_env [] [] two_timers_due) = two_timers_due"
  "runTimeProc kernel_env (timeProc (heap two_timers_due (Suc 0)))
     (te_id (heap two_timers_due (Suc 0))) (te_clientData (heap two_timers_due (Suc 0)))
     two_timers_due = two_timers_due"
  by (simp_all add: AeProcessEvents_def two_timers_due_eval two_timers_eval kernel_env_sel
        run_script_def)

lemma three_timers_poll: "fst (AeWait_poll kernel_env three_timers) = Inr []"
  by (simp add: three_timers_def AeWait_poll_def time_simps kernel_simps)

lemma three_timers_eval:
  "fst (fst (AeWait kernel_env three_timers)) = [2, 0]"
  "TimeEventHead (eventLoop three_timers) = [2, 1, 0]"
  "noted (world (fst (AeMain_body kernel_env (three_timers, [])))) = [300, 100]"
  by (simp_all add: three_timers_def AeMain_body_def time_simps kernel_simps)




section \<open>The claims\<close>

text \<open>
  C1 (the code differs). Descriptor 0 has one key for both directions, because
  \<open>0 * (- 1) = 0\<close>: after Readable is registered on descriptor 0, unregistering Writable
  on it removes the Readable entry, and registering Writable on it replaces the Readable
  entry.
\<close>

theorem directions_collide_at_descriptor_0:
  "map_index (FileEvents (eventLoop
      (AeCreateFileEvent kernel_env 0 AE_READABLE Nop 7 (start 3 1700000000000 (Inr [])))))
     (getFeKey 0 AE_READABLE)
     = Some \<lparr>fe_fd = 0, fe_mask = AE_READABLE, fileProc = Nop, fe_clientData = 7\<rparr>
   \<and> map_index (FileEvents (eventLoop
        (AeDeleteFileEvent kernel_env 0 AE_WRITABLE
          (AeCreateFileEvent kernel_env 0 AE_READABLE Nop 7 (start 3 1700000000000 (Inr []))))))
       (getFeKey 0 AE_READABLE) = None
   \<and> map_index (FileEvents (eventLoop
        (AeCreateFileEvent kernel_env 0 AE_WRITABLE Nop 8
          (AeCreateFileEvent kernel_env 0 AE_READABLE Nop 7 (start 3 1700000000000 (Inr []))))))
       (getFeKey 0 AE_READABLE)
       = Some \<lparr>fe_fd = 0, fe_mask = AE_WRITABLE, fileProc = Nop, fe_clientData = 8\<rparr>"
  by (simp add: kernel_simps)

text \<open>
  C2, as stated, fails. In the batch below the callback of the timer at address 1 deletes
  the timer at address 0 (id 1). When the dispatcher reaches that timer it is no longer
  on the loop's list, and its callback runs all the same: it notes its \<^verbatim>\<open>clientData\<close>,
  100, which was not noted before its round.
\<close>

theorem removed_timer_still_fires:
  "fst (fst (AeWait kernel_env cancelling)) = [1, 0]
   \<and> 0 \<in> set (TimeEventHead (eventLoop (snd (AeWait kernel_env cancelling))))
   \<and> 0 \<notin> set (TimeEventHead (eventLoop
        (fst (AeProcessEvents kernel_env [1] [] (snd (AeWait kernel_env cancelling))))))
   \<and> noted (world (fst (AeProcessEvents kernel_env [1] [] (snd (AeWait kernel_env cancelling)))))
       = []
   \<and> noted (world (fst (AeProcessEvents kernel_env [1, 0] [] (snd (AeWait kernel_env cancelling)))))
       = [100]
   \<and> noted (world (fst (AeMain_body kernel_env (cancelling, [])))) = [100]"
  by (simp add: cancelling_def AeMain_body_def time_simps kernel_simps)

text \<open>
  C2, amended. What prevents a callback is unregistering before the waiter collects the
  batch: a time event that is not on the list, and a file event that is not in the
  registry, when \<^verbatim>\<open>AeWait\<close> is called are not in the batch it returns, and the pass of
  the loop of \<^verbatim>\<open>AeMain\<close> runs the dispatcher on that batch. The dispatcher runs the
  round of every event of its batch, in order, each beginning with the event's callback,
  from the state the round before left, whatever that round unregistered.
\<close>

theorem unregistered_before_wait_does_not_fire:
  "(te \<notin> set (TimeEventHead (eventLoop s)) \<longrightarrow> te \<notin> set (fst (fst (AeWait env s))))
   \<and> ((\<forall>k. map_index (FileEvents (eventLoop s)) k \<noteq> Some fe) \<longrightarrow>
        fe \<notin> set (fst (snd (fst (AeWait env s)))))
   \<and> fst (AeMain_body env (s, cs)) =
       fst (AeProcessEvents env (fst (fst (AeWait env s))) (fst (snd (fst (AeWait env s))))
             (if snd (snd (fst (AeWait env s))) \<noteq> None
              then (snd (AeWait env s))
                     \<lparr>eventLoop := (eventLoop (snd (AeWait env s)))\<lparr>stop := True\<rparr>\<rparr>
              else snd (AeWait env s)))
   \<and> fst (AeProcessEvents env tes fes s') =
       fold (\<lambda>fe x. AeDeleteFileEvent env (fe_fd fe) (fe_mask fe)
               (runFileProc env (fileProc fe) (fe_fd fe) (fe_clientData fe) x)) fes
         (fold (\<lambda>te x. timeEventPost env te
                  (runTimeProc env (timeProc (heap x te)) (te_id (heap x te))
                     (te_clientData (heap x te)) x)) tes s')"
proof (intro conjI impI)
  show "te \<notin> set (fst (fst (AeWait env s)))" if "te \<notin> set (TimeEventHead (eventLoop s))"
    using that AeWait_tes_subset [of env s] by blast
  show "fe \<notin> set (fst (snd (fst (AeWait env s))))"
    if "\<forall>k. map_index (FileEvents (eventLoop s)) k \<noteq> Some fe"
    using that AeWait_fes_registered [of fe env s] by blast
  show "fst (AeMain_body env (s, cs)) =
       fst (AeProcessEvents env (fst (fst (AeWait env s))) (fst (snd (fst (AeWait env s))))
             (if snd (snd (fst (AeWait env s))) \<noteq> None
              then (snd (AeWait env s))
                     \<lparr>eventLoop := (eventLoop (snd (AeWait env s)))\<lparr>stop := True\<rparr>\<rparr>
              else snd (AeWait env s)))"
    by (rule AeMain_body_state)
  show "fst (AeProcessEvents env tes fes s') =
       fold (\<lambda>fe x. AeDeleteFileEvent env (fe_fd fe) (fe_mask fe)
               (runFileProc env (fileProc fe) (fe_fd fe) (fe_clientData fe) x)) fes
         (fold (\<lambda>te x. timeEventPost env te
                  (runTimeProc env (timeProc (heap x te)) (te_id (heap x te))
                     (te_clientData (heap x te)) x)) tes s')"
    by (rule AeProcessEvents_fold)
qed

theorem unregistered_before_wait_does_not_fire_witness:
  "0 \<notin> set (TimeEventHead (eventLoop cancelled))
   \<and> (\<forall>k. map_index (FileEvents (eventLoop cancelled)) k
            \<noteq> Some \<lparr>fe_fd = 5, fe_mask = AE_READABLE, fileProc = Note, fe_clientData = 7\<rparr>)
   \<and> 0 \<notin> set (fst (fst (AeWait kernel_env cancelled)))
   \<and> \<lparr>fe_fd = 5, fe_mask = AE_READABLE, fileProc = Note, fe_clientData = 7\<rparr>
        \<notin> set (fst (snd (fst (AeWait kernel_env cancelled))))
   \<and> noted (world (fst (AeMain_body kernel_env (cancelled, [])))) = [200, 9]"
proof -
  have a: "0 \<notin> set (TimeEventHead (eventLoop cancelled))"
    by (simp add: cancelled_eval)
  have b: "\<forall>k. map_index (FileEvents (eventLoop cancelled)) k
            \<noteq> Some \<lparr>fe_fd = 5, fe_mask = AE_READABLE, fileProc = Note, fe_clientData = 7\<rparr>"
    by (simp add: cancelled_eval map_index_def)
  show ?thesis
    using a b cancelled_pass
      unregistered_before_wait_does_not_fire [of 0 cancelled kernel_env
            "\<lparr>fe_fd = 5, fe_mask = AE_READABLE, fileProc = Note, fe_clientData = 7\<rparr>"]
    by blast
qed

text \<open>
  C3 (the code differs). With Readable registered on descriptor 5, registering Writable
  on it does choose \<^verbatim>\<open>EPOLL_CTL_MOD\<close>, but the event mask it passes holds the new
  direction alone. A kernel on which \<^verbatim>\<open>EPOLL_CTL_MOD\<close> replaces the mask is then left
  with interest in writing only, while the registry still holds the Readable entry.
\<close>

theorem mod_drops_the_other_direction:
  "AeCreateFileEvent_op (eventLoop
      (AeCreateFileEvent kernel_env 5 AE_READABLE Nop 7 (start 3 1700000000000 (Inr [])))) 5
     = EPOLL_CTL_MOD
   \<and> getEpollEvent AE_WRITABLE AND EPOLLIN = 0
   \<and> interest (world
        (AeCreateFileEvent kernel_env 5 AE_READABLE Nop 7 (start 3 1700000000000 (Inr [])))) 5
       = Some EPOLLIN
   \<and> interest (world
        (AeCreateFileEvent kernel_env 5 AE_WRITABLE Nop 8
          (AeCreateFileEvent kernel_env 5 AE_READABLE Nop 7 (start 3 1700000000000 (Inr []))))) 5
       = Some EPOLLOUT
   \<and> map_index (FileEvents (eventLoop
        (AeCreateFileEvent kernel_env 5 AE_WRITABLE Nop 8
          (AeCreateFileEvent kernel_env 5 AE_READABLE Nop 7 (start 3 1700000000000 (Inr []))))))
       (getFeKey 5 AE_READABLE)
       = Some \<lparr>fe_fd = 5, fe_mask = AE_READABLE, fileProc = Nop, fe_clientData = 7\<rparr>"
  by (simp add: kernel_simps)

theorem mod_drops_the_other_direction_witness:
  "map_index (FileEvents (eventLoop
      (AeCreateFileEvent kernel_env 5 AE_READABLE Nop 7 (start 3 1700000000000 (Inr [])))))
     (getFeKey 5 AE_READABLE) \<noteq> None
   \<and> AeCreateFileEvent_op (eventLoop
        (AeCreateFileEvent kernel_env 5 AE_READABLE Nop 7 (start 3 1700000000000 (Inr [])))) 5
       = EPOLL_CTL_MOD"
proof -
  have "map_index (FileEvents (eventLoop
      (AeCreateFileEvent kernel_env 5 AE_READABLE Nop 7 (start 3 1700000000000 (Inr [])))))
     (getFeKey 5 AE_READABLE) \<noteq> None"
    by (simp add: kernel_simps)
  then show ?thesis
    using mod_drops_the_other_direction by blast
qed

text \<open>
  C4. In any pass of the loop of \<^verbatim>\<open>AeMain\<close> (the stop flag is not set, \<open>calls\<close> are
  the callbacks invoked so far): if \<^verbatim>\<open>AeWait\<close> returns an error, \<^verbatim>\<open>AeMain\<close> returns
  after that pass. The state it leaves is the one that \<^verbatim>\<open>AeWait\<close> left, with the stop
  flag set, so there was no second wait; the dispatcher, which is still called, was given
  two empty batches, and no callback was added to \<open>calls\<close>.
\<close>

theorem wait_error_stops_main:
  assumes "stop (eventLoop s) \<noteq> True"
    and "snd (snd (fst (AeWait env s))) = Some e"
  shows "AeMain_loop env (s, calls) =
           Some ((snd (AeWait env s))\<lparr>eventLoop := (eventLoop s)\<lparr>stop := True\<rparr>\<rparr>, calls)"
proof -
  let ?s1 = "snd (AeWait env s)"
  have nil: "fst (fst (AeWait env s)) = []" "fst (snd (fst (AeWait env s))) = []"
    using assms(2) by (auto simp: AeWait_def split_def Let_def split: sum.splits)
  have el: "eventLoop ?s1 = eventLoop s"
    by (rule AeWait_frame)
  have body: "AeMain_body env (s, calls) =
      (?s1\<lparr>eventLoop := (eventLoop s)\<lparr>stop := True\<rparr>\<rparr>, calls)"
    using assms(2) nil by (simp add: AeMain_body_def split_def Let_def AeProcessEvents_def el)
  have "AeMain_loop env (s, calls) = AeMain_loop env (AeMain_body env (s, calls))"
    using assms(1) by (subst AeMain_loop.simps) simp
  also have "\<dots> = Some (?s1\<lparr>eventLoop := (eventLoop s)\<lparr>stop := True\<rparr>\<rparr>, calls)"
    unfolding body by (subst AeMain_loop.simps) simp
  finally show ?thesis .
qed


theorem wait_error_stops_main_witness:
  "stop (eventLoop ((start 3 1700000000000 (Inl EINTR))
         \<lparr>eventLoop := (eventLoop (start 3 1700000000000 (Inl EINTR)))\<lparr>stop := False\<rparr>\<rparr>))
     \<noteq> True
   \<and> snd (snd (fst (AeWait kernel_env
      ((start 3 1700000000000 (Inl EINTR))
         \<lparr>eventLoop := (eventLoop (start 3 1700000000000 (Inl EINTR)))\<lparr>stop := False\<rparr>\<rparr>))))
     = Some EINTR
   \<and> map_option snd (AeMain kernel_env (start 3 1700000000000 (Inl EINTR))) = Some []
   \<and> map_option (\<lambda>r. stop (eventLoop (fst r)))
        (AeMain kernel_env (start 3 1700000000000 (Inl EINTR))) = Some True"
proof -
  let ?s = "(start 3 1700000000000 (Inl EINTR))
         \<lparr>eventLoop := (eventLoop (start 3 1700000000000 (Inl EINTR)))\<lparr>stop := False\<rparr>\<rparr>"
  have g: "stop (eventLoop ?s) \<noteq> True"
    by simp
  have h: "snd (snd (fst (AeWait kernel_env ?s))) = Some EINTR"
    by (simp add: time_simps kernel_simps)
  show ?thesis
    using g h wait_error_stops_main [OF g h, of "[]"] by (simp add: AeMain_def)
qed

text \<open>
  C5. If the \<^verbatim>\<open>EpollCtl\<close> call of \<^verbatim>\<open>AeCreateFileEvent\<close> returns an error, the call
  changes nothing of the program's state: the loop, and with it the registry, is as it
  was, and only the world outside may have changed by the call. The function has no
  result, so no error reaches the caller.
\<close>

theorem create_file_event_failure_keeps_registry:
  assumes "fst (EpollCtl env (epollFd (eventLoop s)) (AeCreateFileEvent_op (eventLoop s) fd) fd
             \<lparr>Events = getEpollEvent msk, Fd = ucast fd\<rparr> (world s)) \<noteq> None"
  shows "AeCreateFileEvent env fd msk proc clientData s =
           s\<lparr>world := snd (EpollCtl env (epollFd (eventLoop s))
                             (AeCreateFileEvent_op (eventLoop s) fd) fd
                             \<lparr>Events = getEpollEvent msk, Fd = ucast fd\<rparr> (world s))\<rparr>"
  using assms by (simp add: AeCreateFileEvent_def Let_def split_def)

theorem create_file_event_failure_keeps_registry_witness:
  "fst (EpollCtl kernel_env (epollFd (eventLoop stale_interest))
         (AeCreateFileEvent_op (eventLoop stale_interest) 5) 5
         \<lparr>Events = getEpollEvent AE_WRITABLE, Fd = ucast (5 :: int64)\<rparr>
         (world stale_interest)) \<noteq> None
   \<and> eventLoop (AeCreateFileEvent kernel_env 5 AE_WRITABLE Nop 9 stale_interest)
       = eventLoop stale_interest"
  using create_file_event_failure_keeps_registry
          [of kernel_env stale_interest 5 AE_WRITABLE Nop 9]
        stale_interest_ctl_fails
  by simp

text \<open>
  C6. In a batch of \<^verbatim>\<open>AeProcessEvents\<close>, right after the round for a file event \<open>fe\<close>
  (its callback, then \<^verbatim>\<open>AeDeleteFileEvent\<close>), the registry has nothing under the key
  of the descriptor and direction of \<open>fe\<close>, whatever the callback did and whatever the
  kernel answered; so a wait in that state collects nothing for a report of that
  descriptor in that direction; the rest of the batch goes on from that state; and the
  batch invokes one callback for each event it was given, in order.
\<close>

theorem file_event_single_shot:
  "map_index (FileEvents (eventLoop (fst (AeProcessEvents env tes (pre @ [fe]) s))))
     (getFeKey (fe_fd fe) (fe_mask fe)) = None
   \<and> (\<forall>ev. scast (Fd ev) = fe_fd fe
          \<and> (Events ev AND EPOLLIN \<noteq> 0 \<longrightarrow> fe_mask fe = AE_READABLE)
          \<and> (Events ev AND EPOLLIN = 0 \<longrightarrow> fe_mask fe = AE_WRITABLE)
        \<longrightarrow> readyFileEvent (eventLoop (fst (AeProcessEvents env tes (pre @ [fe]) s))) ev = [])
   \<and> fst (AeProcessEvents env tes (pre @ fe # post) s) =
       fst (fileEventLoop env post (fst (AeProcessEvents env tes (pre @ [fe]) s)))
   \<and> map call_event (snd (AeProcessEvents env tes (pre @ fe # post) s)) =
       map Inl tes @ map Inr (pre @ fe # post)"
proof -
  have a: "fst (AeProcessEvents env tes (pre @ [fe]) s) =
        fileEventStep env fe (fst (fileEventLoop env pre (fst (timeEventLoop env tes s))))"
    by (simp add: AeProcessEvents_def split_def Let_def fileEventLoop_append)
  have b: "fst (AeProcessEvents env tes (pre @ fe # post) s) =
       fst (fileEventLoop env post (fst (AeProcessEvents env tes (pre @ [fe]) s)))"
    unfolding a by (simp add: AeProcessEvents_def split_def Let_def fileEventLoop_append)
  have c: "map_index (FileEvents (eventLoop (fst (AeProcessEvents env tes (pre @ [fe]) s))))
     (getFeKey (fe_fd fe) (fe_mask fe)) = None"
    unfolding a by (rule fileEventStep_unregisters)
  have d: "readyFileEvent (eventLoop (fst (AeProcessEvents env tes (pre @ [fe]) s))) ev = []"
    if "scast (Fd ev) = fe_fd fe"
       "Events ev AND EPOLLIN \<noteq> 0 \<longrightarrow> fe_mask fe = AE_READABLE"
       "Events ev AND EPOLLIN = 0 \<longrightarrow> fe_mask fe = AE_WRITABLE" for ev
    using readyFileEvent_unregistered [OF c that] .
  show ?thesis
  proof (intro conjI allI impI)
    show "map_index (FileEvents (eventLoop (fst (AeProcessEvents env tes (pre @ [fe]) s))))
       (getFeKey (fe_fd fe) (fe_mask fe)) = None"
      by (rule c)
    show "readyFileEvent (eventLoop (fst (AeProcessEvents env tes (pre @ [fe]) s))) ev = []"
      if "scast (Fd ev) = fe_fd fe
          \<and> (Events ev AND EPOLLIN \<noteq> 0 \<longrightarrow> fe_mask fe = AE_READABLE)
          \<and> (Events ev AND EPOLLIN = 0 \<longrightarrow> fe_mask fe = AE_WRITABLE)" for ev
      using that d [of ev] by simp
    show "fst (AeProcessEvents env tes (pre @ fe # post) s) =
       fst (fileEventLoop env post (fst (AeProcessEvents env tes (pre @ [fe]) s)))"
      by (rule b)
    show "map call_event (snd (AeProcessEvents env tes (pre @ fe # post) s)) =
       map Inl tes @ map Inr (pre @ fe # post)"
      by (rule AeProcessEvents_calls)
  qed
qed


theorem file_event_single_shot_witness:
  "fst (snd (fst (AeWait kernel_env one_reader))) =
     [\<lparr>fe_fd = 5, fe_mask = AE_READABLE, fileProc = Advance 3, fe_clientData = 7\<rparr>]
   \<and> scast (Fd \<lparr>Events = EPOLLIN, Fd = 5\<rparr>) = (5 :: int64)
   \<and> Events \<lparr>Events = EPOLLIN, Fd = 5\<rparr> AND EPOLLIN \<noteq> 0
   \<and> readyFileEvent (eventLoop (fst (AeProcessEvents kernel_env []
         ([] @ [\<lparr>fe_fd = 5, fe_mask = AE_READABLE, fileProc = Advance 3, fe_clientData = 7\<rparr>])
         one_reader))) \<lparr>Events = EPOLLIN, Fd = 5\<rparr> = []
   \<and> snd (AeMain_body kernel_env (AeMain_body kernel_env (one_reader, []))) =
       [FileProcCall
          \<lparr>fe_fd = 5, fe_mask = AE_READABLE, fileProc = Advance 3, fe_clientData = 7\<rparr>]"
proof -
  have a: "scast (Fd \<lparr>Events = EPOLLIN, Fd = 5\<rparr>) = (5 :: int64)"
    by simp
  have b: "Events \<lparr>Events = EPOLLIN, Fd = 5\<rparr> AND EPOLLIN \<noteq> 0"
    by (simp add: EPOLLIN_def)
  have c: "readyFileEvent (eventLoop (fst (AeProcessEvents kernel_env []
         ([] @ [\<lparr>fe_fd = 5, fe_mask = AE_READABLE, fileProc = Advance 3, fe_clientData = 7\<rparr>])
         one_reader))) \<lparr>Events = EPOLLIN, Fd = 5\<rparr> = []"
  proof (rule file_event_single_shot [THEN conjunct2, THEN conjunct1, THEN spec, THEN mp])
    show "scast (Fd \<lparr>Events = EPOLLIN, Fd = 5\<rparr>) =
            fe_fd \<lparr>fe_fd = 5, fe_mask = AE_READABLE, fileProc = Advance 3, fe_clientData = 7 :: nat\<rparr>
          \<and> (Events \<lparr>Events = EPOLLIN, Fd = 5\<rparr> AND EPOLLIN \<noteq> 0 \<longrightarrow>
               fe_mask \<lparr>fe_fd = 5, fe_mask = AE_READABLE, fileProc = Advance 3, fe_clientData = 7 :: nat\<rparr>
                 = AE_READABLE)
          \<and> (Events \<lparr>Events = EPOLLIN, Fd = 5\<rparr> AND EPOLLIN = 0 \<longrightarrow>
               fe_mask \<lparr>fe_fd = 5, fe_mask = AE_READABLE, fileProc = Advance 3, fe_clientData = 7 :: nat\<rparr>
                 = AE_WRITABLE)"
      by (simp add: EPOLLIN_def)
  qed
  show ?thesis
    by (intro conjI one_reader_wait a b c one_reader_two_passes)
qed

text \<open>
  C7. When the dispatcher has done the rounds of \<open>pre\<close> and reaches the time event
  \<open>te\<close> of its batch, it calls the callback of \<open>te\<close> and then goes by the kind \<open>te\<close>
  has when the callback returns. A repeating event (\<^verbatim>\<open>AE_NORMAL\<close>) gets, in place,
  \<^verbatim>\<open>when\<close> = the clock read after the callback plus its \<^verbatim>\<open>duration\<close> (addition wraps as
  in Go), and nothing else of the program's state changes. A one-shot event
  (\<^verbatim>\<open>AE_ONCE\<close>) is handed to \<^verbatim>\<open>AeDeleteTimeEvent\<close> by its id; when the list has the
  invariant \<open>timers_unique\<close>, the event is off the list afterwards, and if it was on the
  list it is the only node removed. The rest of the batch goes on from that state.
\<close>

theorem timer_post_processing:
  "(let s0 = fst (AeProcessEvents env pre [] s);
        s1 = runTimeProc env (timeProc (heap s0 te)) (te_id (heap s0 te))
               (te_clientData (heap s0 te)) s0;
        s2 = fst (AeProcessEvents env (pre @ [te]) [] s)
    in (te_mask (heap s1 te) = AE_NORMAL \<longrightarrow>
          s2 = s1\<lparr>world := snd (GetMsTime env (world s1)),
                  heap := (heap s1)
                    (te := (heap s1 te)
                       \<lparr>te_when := fst (GetMsTime env (world s1)) + te_duration (heap s1 te)\<rparr>)\<rparr>)
       \<and> (te_mask (heap s1 te) = AE_ONCE \<longrightarrow>
            s2 = AeDeleteTimeEvent (te_id (heap s1 te)) s1
            \<and> (timers_unique s1 \<longrightarrow> te \<notin> set (TimeEventHead (eventLoop s2)))
            \<and> (timers_unique s1 \<and> te \<in> set (TimeEventHead (eventLoop s1)) \<longrightarrow>
                 TimeEventHead (eventLoop s2) = remove1 te (TimeEventHead (eventLoop s1))))
       \<and> fst (AeProcessEvents env (pre @ te # post) fes s) =
           fst (AeProcessEvents env post fes s2))"
proof -
  let ?s0 = "fst (AeProcessEvents env pre [] s)"
  let ?s1 = "runTimeProc env (timeProc (heap ?s0 te)) (te_id (heap ?s0 te))
               (te_clientData (heap ?s0 te)) ?s0"
  let ?s2 = "fst (AeProcessEvents env (pre @ [te]) [] s)"
  have s2: "?s2 = timeEventPost env te ?s1"
    by (simp add: AeProcessEvents_fold)
  have n: "?s2 = ?s1\<lparr>world := snd (GetMsTime env (world ?s1)),
                  heap := (heap ?s1)
                    (te := (heap ?s1 te)
                       \<lparr>te_when := fst (GetMsTime env (world ?s1)) + te_duration (heap ?s1 te)\<rparr>)\<rparr>"
    if "te_mask (heap ?s1 te) = AE_NORMAL"
    using that by (simp add: s2 timeEventPost_def split_def Let_def)
  have o: "?s2 = AeDeleteTimeEvent (te_id (heap ?s1 te)) ?s1"
    if "te_mask (heap ?s1 te) = AE_ONCE"
    using that by (simp add: s2 timeEventPost_def)
  have sub: "set (TimeEventHead (eventLoop (AeDeleteTimeEvent (te_id (heap ?s1 te)) ?s1)))
       \<subseteq> set (TimeEventHead (eventLoop ?s1))"
    using unlink_first_subset by (simp add: AeDeleteTimeEvent_def)
  have r: "TimeEventHead (eventLoop (AeDeleteTimeEvent (te_id (heap ?s1 te)) ?s1)) =
             remove1 te (TimeEventHead (eventLoop ?s1))"
    if "timers_unique ?s1" "te \<in> set (TimeEventHead (eventLoop ?s1))"
    using that unlink_first_remove1 [of "TimeEventHead (eventLoop ?s1)"
        "\<lambda>a. te_id (heap ?s1 a) = te_id (heap ?s1 te)" te]
    by (auto simp: AeDeleteTimeEvent_def timers_unique_def)
  have g: "te \<notin> set (TimeEventHead (eventLoop (AeDeleteTimeEvent (te_id (heap ?s1 te)) ?s1)))"
    if "timers_unique ?s1"
  proof (cases "te \<in> set (TimeEventHead (eventLoop ?s1))")
    case True
    then show ?thesis
      using r [OF that True] that by (simp add: timers_unique_def)
  next
    case False
    then show ?thesis using sub by blast
  qed
  have c: "fst (AeProcessEvents env (pre @ te # post) fes s) =
           fst (AeProcessEvents env post fes ?s2)"
    by (simp add: AeProcessEvents_fold)
  show ?thesis
    unfolding Let_def
  proof (intro conjI impI)
    assume m: "te_mask (heap ?s1 te) = AE_NORMAL"
    show "?s2 = ?s1\<lparr>world := snd (GetMsTime env (world ?s1)),
                  heap := (heap ?s1)
                    (te := (heap ?s1 te)
                       \<lparr>te_when := fst (GetMsTime env (world ?s1)) + te_duration (heap ?s1 te)\<rparr>)\<rparr>"
      by (rule n [OF m])
  next
    assume m: "te_mask (heap ?s1 te) = AE_ONCE"
    show "?s2 = AeDeleteTimeEvent (te_id (heap ?s1 te)) ?s1"
      by (rule o [OF m])
  next
    assume m: "te_mask (heap ?s1 te) = AE_ONCE" and u: "timers_unique ?s1"
    show "te \<notin> set (TimeEventHead (eventLoop ?s2))"
      unfolding o [OF m] by (rule g [OF u])
  next
    assume m: "te_mask (heap ?s1 te) = AE_ONCE"
      and u: "timers_unique ?s1 \<and> te \<in> set (TimeEventHead (eventLoop ?s1))"
    show "TimeEventHead (eventLoop ?s2) = remove1 te (TimeEventHead (eventLoop ?s1))"
      unfolding o [OF m] using u r by blast
  next
    show "fst (AeProcessEvents env (pre @ te # post) fes s) =
           fst (AeProcessEvents env post fes ?s2)"
      by (rule c)
  qed
qed

theorem timer_post_processing_witness:
  "fst (fst (AeWait kernel_env two_timers_due)) = [Suc 0, 0]
   \<and> te_mask (heap two_timers_due (Suc 0)) = AE_ONCE
   \<and> timers_unique two_timers_due
   \<and> Suc 0 \<in> set (TimeEventHead (eventLoop two_timers_due))
   \<and> TimeEventHead (eventLoop (fst (AeProcessEvents kernel_env ([] @ [Suc 0]) [] two_timers_due)))
       = [0]
   \<and> te_mask (heap (fst (AeProcessEvents kernel_env [Suc 0] [] two_timers_due)) 0) = AE_NORMAL
   \<and> te_when (heap (fst (AeProcessEvents kernel_env ([Suc 0] @ [0]) [] two_timers_due)) 0)
       = 1700000000060 + 7 + 50
   \<and> TimeEventHead (eventLoop (fst (AeProcessEvents kernel_env ([Suc 0] @ [0]) [] two_timers_due)))
       = [0]"
proof -
  have m1: "te_mask (heap two_timers_due (Suc 0)) = AE_ONCE"
    by (simp add: two_timers_due_eval two_timers_eval)
  have in1: "Suc 0 \<in> set (TimeEventHead (eventLoop two_timers_due))"
    by (simp add: two_timers_due_eval)
  note t1 = timer_post_processing [of kernel_env "[]" two_timers_due "Suc 0" "[]" "[]",
      unfolded Let_def two_timers_due_rounds]
  from t1 m1 two_timers_due_unique in1
  have l1: "TimeEventHead (eventLoop (fst (AeProcessEvents kernel_env ([] @ [Suc 0]) [] two_timers_due)))
       = remove1 (Suc 0) (TimeEventHead (eventLoop two_timers_due))"
    by blast
  from t1 m1
  have s1: "fst (AeProcessEvents kernel_env ([] @ [Suc 0]) [] two_timers_due) =
      AeDeleteTimeEvent (te_id (heap two_timers_due (Suc 0))) two_timers_due"
    by blast
  have s1': "fst (AeProcessEvents kernel_env [Suc 0] [] two_timers_due) =
      two_timers_due\<lparr>eventLoop := (eventLoop two_timers_due)\<lparr>TimeEventHead := [0]\<rparr>\<rparr>"
    using s1 by (simp add: AeDeleteTimeEvent_def two_timers_due_eval two_timers_eval)
  let ?s0 = "fst (AeProcessEvents kernel_env [Suc 0] [] two_timers_due)"
  let ?s1 = "runTimeProc kernel_env (timeProc (heap ?s0 0)) (te_id (heap ?s0 0))
               (te_clientData (heap ?s0 0)) ?s0"
  have r0: "?s1 = ?s0\<lparr>world := (world two_timers_due)\<lparr>clock := 1700000000067\<rparr>\<rparr>"
    by (simp add: s1' two_timers_due_eval two_timers_eval kernel_env_sel run_script_def)
  have m0: "te_mask (heap ?s1 0) = AE_NORMAL"
    unfolding r0 by (simp add: s1' two_timers_due_eval two_timers_eval)
  note t0 = timer_post_processing [of kernel_env "[Suc 0]" two_timers_due 0 "[]" "[]", unfolded Let_def]
  from t0 m0
  have s2: "fst (AeProcessEvents kernel_env ([Suc 0] @ [0]) [] two_timers_due) =
      ?s1\<lparr>world := snd (GetMsTime kernel_env (world ?s1)),
           heap := (heap ?s1)
             (0 := (heap ?s1 0)
                \<lparr>te_when := fst (GetMsTime kernel_env (world ?s1)) + te_duration (heap ?s1 0)\<rparr>)\<rparr>"
    by blast
  have w: "te_when (heap (fst (AeProcessEvents kernel_env ([Suc 0] @ [0]) [] two_timers_due)) 0)
       = 1700000000060 + 7 + 50"
    unfolding s2 r0 by (simp add: s1' two_timers_due_eval two_timers_eval kernel_env_sel)
  have l2: "TimeEventHead (eventLoop (fst (AeProcessEvents kernel_env ([Suc 0] @ [0]) [] two_timers_due)))
       = [0]"
    unfolding s2 r0 by (simp add: s1')
  have m0': "te_mask (heap ?s0 0) = AE_NORMAL"
    by (simp add: s1' two_timers_due_eval two_timers_eval)
  show ?thesis
    using m1 in1 two_timers_due_unique l1 w l2 m0'
    by (simp add: two_timers_due_eval)
qed

text \<open>
  C8, as stated, fails for the wait bound. A one-shot timer registered with the largest
  duration has a \<^verbatim>\<open>when\<close> that wrapped below zero; \<^verbatim>\<open>nearestTime\<close> returns it, and the
  timeout \<^verbatim>\<open>AeWait\<close> computes from it, in the same millisecond, is 9223372036854775807 ms.
\<close>

theorem timeout_exceeds_one_second:
  "sint (te_when (heap far_timer 0)) = - 9223370336854775809
   \<and> AeWait_timeout (fst (nearestTime kernel_env far_timer))
        (fst (GetMsTime kernel_env (world (snd (nearestTime kernel_env far_timer)))))
       = 9223372036854775807
   \<and> \<not> AeWait_timeout (fst (nearestTime kernel_env far_timer))
          (fst (GetMsTime kernel_env (world (snd (nearestTime kernel_env far_timer)))))
        \<le>s 1000"
  by (simp add: far_timer_def time_simps kernel_simps word_sle_eq)

text \<open>
  C8, amended. With \<open>now\<close> the clock reading \<^verbatim>\<open>nearestTime\<close> takes: its result is the
  least, as signed 64-bit values, of \<open>now + 1000\<close> (wrapping) and the \<^verbatim>\<open>when\<close> of the timers
  on the list; with no timer it is \<open>now + 1000\<close>; it is never after \<open>now + 1000\<close>; and
  the timeout \<^verbatim>\<open>AeWait\<close> computes from it and a second clock reading \<open>now'\<close> is at most
  1000 ms when \<open>now + 1000\<close> does not overflow, \<open>now'\<close> is not before \<open>now\<close>, and the
  subtraction of \<open>now'\<close> from the result does not underflow.
\<close>

theorem nearestTime_signed_minimum:
  assumes "now = fst (GetMsTime env (world s))"
  shows "sint (fst (nearestTime env s)) =
           Min (insert (sint (now + 1000))
                 ((\<lambda>te. sint (te_when (heap s te))) ` set (TimeEventHead (eventLoop s))))
    \<and> (TimeEventHead (eventLoop s) = [] \<longrightarrow> fst (nearestTime env s) = now + 1000)
    \<and> fst (nearestTime env s) \<le>s now + 1000
    \<and> (sint now + 1000 < 2 ^ 63 \<and> sint now \<le> sint now'
         \<and> - (2 ^ 63) \<le> sint (fst (nearestTime env s)) - sint now'
        \<longrightarrow> AeWait_timeout (fst (nearestTime env s)) now' \<le>s 1000)"
proof -
  have n: "fst (nearestTime env s) =
      nearestTime_loop (heap s) (now + 1000) (TimeEventHead (eventLoop s))"
    by (simp add: nearestTime_def split_def Let_def assms)
  have le: "fst (nearestTime env s) \<le>s now + 1000"
    unfolding n by (rule nearestTime_loop_le)
  show ?thesis
    using le timeout_bound [of "fst (nearestTime env s)" now now']
    by (simp add: n nearestTime_loop_Min)
qed

theorem nearestTime_signed_minimum_witness:
  "sint (fst (nearestTime kernel_env two_timers)) = 1700000000020
   \<and> sint (1700000000000 :: int64) + 1000 < 2 ^ 63
   \<and> - (2 ^ 63) \<le> sint (fst (nearestTime kernel_env two_timers)) - sint (1700000000000 :: int64)
   \<and> AeWait_timeout (fst (nearestTime kernel_env two_timers)) 1700000000000 \<le>s 1000
   \<and> fst (nearestTime kernel_env (start 3 1700000000000 (Inr []))) = 1700000000000 + 1000"
proof -
  have t: "fst (GetMsTime kernel_env (world two_timers)) = 1700000000000"
    by (simp add: kernel_env_sel two_timers_eval)
  have u: "fst (GetMsTime kernel_env (world (start 3 1700000000000 (Inr [])))) = 1700000000000"
    by (simp add: kernel_env_sel start_def)
  have m: "Min (insert (sint (1700000000000 + 1000 :: int64))
             ((\<lambda>te. sint (te_when (heap two_timers te)))
                ` set (TimeEventHead (eventLoop two_timers))))
      = 1700000000020"
    by (simp add: two_timers_eval)
  have e: "TimeEventHead (eventLoop (start 3 1700000000000 (Inr []))) = []"
    by (simp add: start_def)
  from nearestTime_signed_minimum [OF t [symmetric], of 1700000000000] m
  have a: "sint (fst (nearestTime kernel_env two_timers)) = 1700000000020"
    by simp
  from nearestTime_signed_minimum [OF t [symmetric], of 1700000000000] a
  have b: "AeWait_timeout (fst (nearestTime kernel_env two_timers)) 1700000000000 \<le>s 1000"
    by simp
  from nearestTime_signed_minimum [OF u [symmetric], of 0] e
  have c: "fst (nearestTime kernel_env (start 3 1700000000000 (Inr []))) = 1700000000000 + 1000"
    by blast
  show ?thesis
    using a b c by simp
qed



text \<open>
  C10. After timers are registered one after the other, the list holds them most recent
  first, before the older ones (the i-th registration is the object at address
  \<open>nextAddr s + i\<close>, with the i-th id). When time has passed (the world is then \<open>w\<close>) and
  the wait succeeds, the batch of timers is the nodes of that list whose \<^verbatim>\<open>when\<close> is
  before the clock read after the wait, in the order of the list, and the pass of the
  loop runs their rounds, each beginning with the callback, in that order: the due timers
  fire most recently registered first.
\<close>

theorem timers_fire_most_recent_first:
  assumes "s' = (AeCreateTimeEvents env rs s)\<lparr>world := w\<rparr>"
    and "fst (AeWait_poll env s') = Inr evs"
  shows "TimeEventHead (eventLoop s') =
           rev [nextAddr s ..< nextAddr s + length rs] @ TimeEventHead (eventLoop s)
    \<and> (\<forall>i < length rs.
          timeProc (heap s' (nextAddr s + i)) = fst (snd (snd (rs ! i)))
          \<and> te_id (heap s' (nextAddr s + i)) = timeEventNextId (eventLoop s) + of_nat i)
    \<and> fst (fst (AeWait env s')) =
         filter (\<lambda>te. te_when (heap s' te) <s fst (GetMsTime env (snd (AeWait_poll env s'))))
           (rev [nextAddr s ..< nextAddr s + length rs] @ TimeEventHead (eventLoop s))
    \<and> fst (AeMain_body env (s', cs)) =
         fold (\<lambda>fe x. AeDeleteFileEvent env (fe_fd fe) (fe_mask fe)
                 (runFileProc env (fileProc fe) (fe_fd fe) (fe_clientData fe) x))
           (fst (snd (fst (AeWait env s'))))
           (fold (\<lambda>te x. timeEventPost env te
                    (runTimeProc env (timeProc (heap x te)) (te_id (heap x te))
                       (te_clientData (heap x te)) x))
              (filter (\<lambda>te. te_when (heap s' te) <s fst (GetMsTime env (snd (AeWait_poll env s'))))
                 (rev [nextAddr s ..< nextAddr s + length rs] @ TimeEventHead (eventLoop s)))
              (s'\<lparr>world := snd (GetMsTime env (snd (AeWait_poll env s')))\<rparr>))"
proof -
  have h: "TimeEventHead (eventLoop s') =
           rev [nextAddr s ..< nextAddr s + length rs] @ TimeEventHead (eventLoop s)"
    by (simp add: assms(1) AeCreateTimeEvents_head)
  have n: "\<forall>i < length rs.
          timeProc (heap s' (nextAddr s + i)) = fst (snd (snd (rs ! i)))
          \<and> te_id (heap s' (nextAddr s + i)) = timeEventNextId (eventLoop s) + of_nat i"
    using AeCreateTimeEvents_new [of _ rs env s] by (simp add: assms(1))
  note r = AeWait_ready [OF assms(2)]
  have f: "fst (fst (AeWait env s')) =
         filter (\<lambda>te. te_when (heap s' te) <s fst (GetMsTime env (snd (AeWait_poll env s'))))
           (rev [nextAddr s ..< nextAddr s + length rs] @ TimeEventHead (eventLoop s))"
    unfolding r h [symmetric] by simp
  have b: "fst (AeMain_body env (s', cs)) =
         fold (\<lambda>fe x. AeDeleteFileEvent env (fe_fd fe) (fe_mask fe)
                 (runFileProc env (fileProc fe) (fe_fd fe) (fe_clientData fe) x))
           (fst (snd (fst (AeWait env s'))))
           (fold (\<lambda>te x. timeEventPost env te
                    (runTimeProc env (timeProc (heap x te)) (te_id (heap x te))
                       (te_clientData (heap x te)) x))
              (fst (fst (AeWait env s')))
              (s'\<lparr>world := snd (GetMsTime env (snd (AeWait_poll env s')))\<rparr>))"
    unfolding AeMain_body_state AeProcessEvents_fold by (simp add: r)
  show ?thesis
    using h n f b [unfolded f] by blast
qed

theorem timers_fire_most_recent_first_witness:
  "fst (AeWait_poll kernel_env three_timers) = Inr []
   \<and> TimeEventHead (eventLoop three_timers) = [2, 1, 0]
   \<and> fst (fst (AeWait kernel_env three_timers)) = [2, 0]
   \<and> noted (world (fst (AeMain_body kernel_env (three_timers, [])))) = [300, 100]"
  using timers_fire_most_recent_first [OF three_timers_def three_timers_poll] three_timers_poll three_timers_eval
  by blast

end
